theory Spec2Isabelle
  imports Complex_Main
begin

section \<open>The word generator: validation, fetching, sampling\<close>

text \<open>
  \<^verbatim>\<open>src/wordFilter.ts\<close> holds four revisions of class \<^verbatim>\<open>WordFilter\<close>, one after the
  other. They are called here
  \<^item> revision A, lines 1 to 490 (no error log),
  \<^item> revision B, lines 494 to 1136 (error log, part-of-speech patterns),
  \<^item> revision C, lines 1140 to 1306 (no fetching at all),
  \<^item> revision D, lines 1309 to 2096 (the denylist variant: problem words,
    fallback to \<^verbatim>\<open>google_common\<close>).
  A definition without a suffix embeds revision D; a definition of another revision
  carries the revision's letter. Where two revisions have the same text the
  definition is written once and says so. A fifth revision of the class is the file
  \<^verbatim>\<open>unnamed/part_003\<close>; it lies between B and D and is not embedded.

  A JavaScript string is a sequence of UTF-16 code units. The embedding takes the
  code units below 256, one \<^typ>\<open>char\<close> each, so \<^const>\<open>length\<close> is
  \<^verbatim>\<open>.length\<close>. The requested word length, which the code compares with
  \<^verbatim>\<open>word.length\<close>, is an \<^typ>\<open>int\<close>; the count of words to return is a \<open>number\<close>,
  defined with the sampling step.
\<close>

subsection \<open>Strings\<close>

definition lowerLetters :: string where
  "lowerLetters = ''abcdefghijklmnopqrstuvwxyz''"

definition upperLetters :: string where
  "upperLetters = ''ABCDEFGHIJKLMNOPQRSTUVWXYZ''"

text \<open>The letters of the Latin-1 block that have a lower-case partner in the block.\<close>

definition latin1Upper :: string where
  "latin1Upper =
     [CHR 0xC0, CHR 0xC1, CHR 0xC2, CHR 0xC3, CHR 0xC4, CHR 0xC5, CHR 0xC6, CHR 0xC7,
      CHR 0xC8, CHR 0xC9, CHR 0xCA, CHR 0xCB, CHR 0xCC, CHR 0xCD, CHR 0xCE, CHR 0xCF,
      CHR 0xD0, CHR 0xD1, CHR 0xD2, CHR 0xD3, CHR 0xD4, CHR 0xD5, CHR 0xD6,
      CHR 0xD8, CHR 0xD9, CHR 0xDA, CHR 0xDB, CHR 0xDC, CHR 0xDD, CHR 0xDE]"

definition latin1Lower :: string where
  "latin1Lower =
     [CHR 0xE0, CHR 0xE1, CHR 0xE2, CHR 0xE3, CHR 0xE4, CHR 0xE5, CHR 0xE6, CHR 0xE7,
      CHR 0xE8, CHR 0xE9, CHR 0xEA, CHR 0xEB, CHR 0xEC, CHR 0xED, CHR 0xEE, CHR 0xEF,
      CHR 0xF0, CHR 0xF1, CHR 0xF2, CHR 0xF3, CHR 0xF4, CHR 0xF5, CHR 0xF6,
      CHR 0xF8, CHR 0xF9, CHR 0xFA, CHR 0xFB, CHR 0xFC, CHR 0xFD, CHR 0xFE]"

definition toLowerChar :: "char \<Rightarrow> char" where
  "toLowerChar c =
     (case map_of (zip (upperLetters @ latin1Upper) (lowerLetters @ latin1Lower)) c of
        Some l \<Rightarrow> l
      | None \<Rightarrow> c)"

definition toLowerCase :: "string \<Rightarrow> string" where
  "toLowerCase w = map toLowerChar w"

text \<open>
  \<^verbatim>\<open>trim\<close> removes white space and line terminators at both ends: tab, line feed,
  vertical tab, form feed, carriage return, space and no-break space are the ones
  below 256. The class \<^verbatim>\<open>\s\<close> of a regular expression is the same set.
\<close>

definition isSpace :: "char \<Rightarrow> bool" where
  "isSpace c \<longleftrightarrow>
     c \<in> set [CHR 0x09, CHR 0x0A, CHR 0x0B, CHR 0x0C, CHR 0x0D, CHR '' '', CHR 0xA0]"

definition trim :: "string \<Rightarrow> string" where
  "trim w = rev (dropWhile isSpace (rev (dropWhile isSpace w)))"

definition isLowerAlpha :: "char \<Rightarrow> bool" where
  "isLowerAlpha c \<longleftrightarrow> c \<in> set lowerLetters"

text \<open>The test \<^verbatim>\<open>/^[a-z]+$/\<close>: one letter at least, lower-case letters only.\<close>

definition lowerAlphaWord :: "string \<Rightarrow> bool" where
  "lowerAlphaWord w \<longleftrightarrow> w \<noteq> [] \<and> list_all isLowerAlpha w"

text \<open>\<^verbatim>\<open>w.endsWith(s)\<close>, also a pattern \<^verbatim>\<open>/s$/\<close> whose \<^verbatim>\<open>s\<close> is plain text.\<close>

definition endsWith :: "string \<Rightarrow> string \<Rightarrow> bool" where
  "endsWith s w \<longleftrightarrow> take (length s) (rev w) = rev s"

text \<open>\<^verbatim>\<open>w.includes(s)\<close>, also a pattern \<^verbatim>\<open>/s/\<close> whose \<^verbatim>\<open>s\<close> is plain text.\<close>

fun includesStr :: "string \<Rightarrow> string \<Rightarrow> bool" where
  "includesStr s [] \<longleftrightarrow> s = []"
| "includesStr s (c # cs) \<longleftrightarrow> take (length s) (c # cs) = s \<or> includesStr s cs"

text \<open>
  A pattern \<^verbatim>\<open>/^[class]{n,}/\<close>: the first \<open>n\<close> code units are in the class. A pattern
  \<^verbatim>\<open>/[class]{n,}/\<close>: some \<open>n\<close> code units in a row are.
\<close>

definition startsWithRun :: "(char \<Rightarrow> bool) \<Rightarrow> nat \<Rightarrow> string \<Rightarrow> bool" where
  "startsWithRun P n w \<longleftrightarrow> n \<le> length (takeWhile P w)"

fun hasRun :: "(char \<Rightarrow> bool) \<Rightarrow> nat \<Rightarrow> string \<Rightarrow> bool" where
  "hasRun P n [] \<longleftrightarrow> n = 0"
| "hasRun P n (c # cs) \<longleftrightarrow> startsWithRun P n (c # cs) \<or> hasRun P n cs"

subsection \<open>The checks of \<^verbatim>\<open>validateWord\<close>, revision D\<close>

record WordValidationResult =
  isValid :: bool
  reason :: "string option"

definition accepted :: WordValidationResult where
  "accepted = \<lparr>isValid = True, reason = None\<rparr>"

definition rejected :: "string \<Rightarrow> WordValidationResult" where
  "rejected r = \<lparr>isValid = False, reason = Some r\<rparr>"

definition vowels :: "char set" where
  "vowels = set ''aeiouy''"

definition hasVowel :: "string \<Rightarrow> bool" where
  "hasVowel word \<longleftrightarrow> list_ex (\<lambda>letter. letter \<in> vowels) word"

text \<open>
  \<^verbatim>\<open>letterCounts\<close> is a \<^verbatim>\<open>Map\<close>: its entries are visited in the order in which the
  letters first occur, so it is an association list in that order.
\<close>

fun countLetter :: "(char \<times> nat) list \<Rightarrow> char \<Rightarrow> (char \<times> nat) list" where
  "countLetter [] letter = [(letter, 1)]"
| "countLetter ((c, n) # rest) letter =
     (if c = letter then (c, n + 1) # rest else (c, n) # countLetter rest letter)"

definition letterCounts :: "string \<Rightarrow> (char \<times> nat) list" where
  "letterCounts word = foldl countLetter [] word"

text \<open>
  The first \<^verbatim>\<open>forEach\<close> of \<^verbatim>\<open>hasExcessiveRepetition\<close>: the first entry with the
  largest count wins. \<^verbatim>\<open>maxChar\<close> starts as the empty string, here \<^const>\<open>None\<close>.
\<close>

definition pickMax :: "char option \<times> nat \<Rightarrow> char \<times> nat \<Rightarrow> char option \<times> nat" where
  "pickMax = (\<lambda>(maxChar, maxCount) (char, count).
                if count > maxCount then (Some char, count) else (maxChar, maxCount))"

definition mostFrequent :: "(char \<times> nat) list \<Rightarrow> char option \<times> nat" where
  "mostFrequent counts = foldl pickMax (None, 0) counts"

definition hasExcessiveRepetition :: "string \<Rightarrow> bool" where
  "hasExcessiveRepetition word =
     (let counts = letterCounts word;
          (maxChar, maxCount) = mostFrequent counts
      in if maxCount > length word div 2 then True
         else if maxCount \<ge> length word div 2
           then list_ex (\<lambda>(char, count). Some char \<noteq> maxChar \<and> count > 1) counts
         else False)"

definition hasUncommonLetterPatterns :: "string \<Rightarrow> bool" where
  "hasUncommonLetterPatterns word \<longleftrightarrow>
     hasRun (\<lambda>c. c \<in> set ''qwxz'') 2 word
     \<or> hasRun (\<lambda>c. c \<in> set ''jzxq'') 2 word
     \<or> startsWithRun (\<lambda>c. c \<in> set ''qwxzj'') 1 word
     \<or> startsWithRun (\<lambda>c. c \<notin> vowels) 3 word
     \<or> hasRun (\<lambda>c. c \<notin> vowels) 4 word"

definition isUKSpelling :: "string \<Rightarrow> bool" where
  "isUKSpelling word \<longleftrightarrow>
     endsWith ''our'' word
     \<or> endsWith ''ise'' word
     \<or> endsWith ''yse'' word
     \<or> endsWith ''re'' word
     \<or> endsWith ''ogue'' word
     \<or> includesStr ''ae'' word
     \<or> includesStr ''oe'' word"

subsection \<open>The platform and the object's state\<close>

text \<open>
  What the class takes from outside the repository is a parameter of the model:
  \<^item> \<open>isProfane\<close>: the method of the same name of the \<^verbatim>\<open>bad-words\<close> filter, whose
    word list the class never changes;
  \<^item> \<open>net\<close>: what \<^verbatim>\<open>fetch\<close> and \<^verbatim>\<open>response.text()\<close> give for a URL; the first argument
    is the number of requests made before, so the same URL may answer differently
    at different times;
  \<^item> \<open>clock\<close>: the value of the \<open>n\<close>-th call of \<^verbatim>\<open>Date.now()\<close>;
  \<^item> \<open>rand\<close>: the \<open>n\<close>-th draw \<^verbatim>\<open>Math.floor(Math.random() * k)\<close> is \<open>rand n mod k\<close>,
    some index below \<open>k\<close>;
  \<^item> \<open>jsonWords\<close>: for the body of a \<^verbatim>\<open>.json\<close> file, the strings that the \<^verbatim>\<open>try\<close>
    block around \<^verbatim>\<open>JSON.parse\<close> leaves in \<^verbatim>\<open>words\<close> in revision D (lines 1586 to
    1606), and \<open>None\<close> when that block throws;
  \<^item> \<open>jsonEntries_B\<close> and \<open>jsonError_B\<close>: the same for revision B (lines 626 to 667),
    each entry as the string that the later \<^verbatim>\<open>map\<close> (lines 697 to 709) makes of it
    before \<^verbatim>\<open>trim\<close> and \<^verbatim>\<open>toLowerCase\<close>; when the block throws, the message of
    what it threw.
\<close>

datatype response =
    Rejected string
  | Aborted
  | Http nat string string

record env =
  isProfane :: "string \<Rightarrow> bool"
  net :: "nat \<Rightarrow> string \<Rightarrow> response"
  clock :: "nat \<Rightarrow> int"
  rand :: "nat \<Rightarrow> nat"
  jsonWords :: "string \<Rightarrow> string list option"
  jsonEntries_B :: "string \<Rightarrow> string list option"
  jsonError_B :: "string \<Rightarrow> string"

text \<open>
  An item of \<^verbatim>\<open>localStorage\<close> as \<^verbatim>\<open>fetchWordList\<close> reads it: \<open>Entry data timestamp\<close>
  when \<^verbatim>\<open>JSON.parse\<close> gives an object with a list \<^verbatim>\<open>data\<close> and a numeric \<^verbatim>\<open>timestamp\<close>, as
  for every item that the class writes; \<open>Malformed\<close> when \<^verbatim>\<open>JSON.parse\<close> throws, which
  the \<^verbatim>\<open>catch\<close> block answers by fetching. Items of another shape are not modelled.
\<close>

datatype stored =
    Malformed
  | Entry "string list" int

text \<open>
  The fields of the object, and \<^verbatim>\<open>localStorage\<close>, which every object of the page
  shares. \<open>requests\<close> lists the URLs requested so far; \<open>clockReads\<close> and \<open>draws\<close>
  count the calls of \<^verbatim>\<open>Date.now()\<close> and \<^verbatim>\<open>Math.random()\<close>. These three are not in the
  source: they record what the object did to the platform.
\<close>

record store =
  localStorage :: "string \<rightharpoonup> stored"
  wordCache :: "string \<rightharpoonup> string list"
  errorLog :: "string \<rightharpoonup> string"
  problemWords :: "string set"
  problemWordsLoaded :: bool
  requests :: "string list"
  clockReads :: nat
  draws :: nat

text \<open>The fields as the constructor initialises them, with an empty \<^verbatim>\<open>localStorage\<close>.\<close>

definition newStore :: store where
  "newStore =
     \<lparr>localStorage = Map.empty, wordCache = Map.empty, errorLog = Map.empty,
      problemWords = {}, problemWordsLoaded = False,
      requests = [], clockReads = 0, draws = 0\<rparr>"

subsection \<open>\<^verbatim>\<open>validateWord\<close>, revision D\<close>

definition validateWord :: "env \<Rightarrow> store \<Rightarrow> string \<Rightarrow> WordValidationResult" where
  "validateWord e s word0 =
     (if word0 = [] then rejected ''Invalid input''
      else let word = trim (toLowerCase word0) in
        if \<not> lowerAlphaWord word then rejected ''Word must contain only letters''
        else if length word < 3 \<or> length word > 9
          then rejected ''Word must be between 3 and 9 letters''
        else if isProfane e word then rejected ''Word is inappropriate''
        else if \<not> hasVowel word then rejected ''Word must contain at least one vowel''
        else if hasExcessiveRepetition word
          then rejected ''Word has problematic letter repetition''
        else if problemWordsLoaded s \<and> word \<in> problemWords s
          then rejected ''Word is in the problematic words list''
        else if isUKSpelling word then rejected ''UK spelling variant''
        else if hasUncommonLetterPatterns word
          then rejected ''Contains uncommon letter patterns''
        else accepted)"

text \<open>A platform for examples: nothing is profane, every request is rejected.\<close>

definition quietEnv :: env where
  "quietEnv =
     \<lparr>isProfane = (\<lambda>w. False), net = (\<lambda>n url. Rejected ''Failed to fetch''),
      clock = (\<lambda>n. 0), rand = (\<lambda>n. 0), jsonWords = (\<lambda>body. None),
      jsonEntries_B = (\<lambda>body. None), jsonError_B = (\<lambda>body. ''Unexpected token'')\<rparr>"

subsection \<open>Errors\<close>

text \<open>
  Every \<^verbatim>\<open>throw\<close> of the class is a value of \<open>error\<close>; \<open>message\<close> is the text of the
  \<^verbatim>\<open>Error\<close> object. \<open>NetworkFailure\<close> carries the message of whatever \<^verbatim>\<open>fetch\<close> or
  \<^verbatim>\<open>response.text()\<close> rejected with.
\<close>

datatype error =
    NetworkFailure string
  | Timeout
  | BadStatus nat string
  | InvalidJson string
  | EmptyResult string
  | NoWordsOfLength int
  | NoValidWords int
  | NoSourcesSelected
  | AllSourcesFailed
  | NoMatches int

definition digits :: string where
  "digits = ''0123456789''"

fun showNat :: "nat \<Rightarrow> string" where
  "showNat n = (if n < 10 then [digits ! n] else showNat (n div 10) @ [digits ! (n mod 10)])"

declare showNat.simps [simp del]

definition showInt :: "int \<Rightarrow> string" where
  "showInt i = (if i < 0 then CHR ''-'' # showNat (nat (- i)) else showNat (nat i))"

fun message :: "error \<Rightarrow> string" where
  "message (NetworkFailure m) = m"
| "message Timeout = ''Request timed out. Please try again later.''"
| "message (BadStatus status statusText) =
     ''Failed to fetch word list: '' @ showNat status @ '' '' @ statusText"
| "message (InvalidJson m) = ''Invalid JSON format in word list: '' @ m"
| "message (EmptyResult url) = ''No valid words found in the word list from '' @ url"
| "message (NoWordsOfLength n) =
     ''No words of length '' @ showInt n @ '' found in the selected source.''"
| "message (NoValidWords n) =
     ''No valid words of length '' @ showInt n @ '' found in the selected source.''"
| "message NoSourcesSelected = ''At least one word source must be selected''"
| "message AllSourcesFailed =
     ''Could not fetch words from any of the selected sources. Please try again later.''"
| "message (NoMatches n) =
     ''No valid words of length '' @ showInt n @ '' found in the selected sources.''"

subsection \<open>Splitting a response body\<close>

text \<open>\<^verbatim>\<open>text.split(',')\<close>: every occurrence of the separator ends a piece.\<close>

fun splitChar :: "char \<Rightarrow> string \<Rightarrow> string \<Rightarrow> string list" where
  "splitChar d acc [] = [rev acc]"
| "splitChar d acc (c # cs) =
     (if c = d then rev acc # splitChar d [] cs else splitChar d (c # acc) cs)"

text \<open>\<^verbatim>\<open>text.split(/\r?\n/)\<close>: a line feed, with the carriage return before it if any.\<close>

fun splitLines :: "string \<Rightarrow> string \<Rightarrow> string list" where
  "splitLines acc [] = [rev acc]"
| "splitLines acc [c] = (if c = CHR 0x0A then [rev acc, []] else [rev (c # acc)])"
| "splitLines acc (c # d # cs) =
     (if c = CHR 0x0D \<and> d = CHR 0x0A then rev acc # splitLines [] cs
      else if c = CHR 0x0A then rev acc # splitLines [] (d # cs)
      else splitLines (c # acc) (d # cs))"

text \<open>
  \<^verbatim>\<open>text.split(/[class]+/)\<close>, for \<^verbatim>\<open>/\s+/\<close> and \<^verbatim>\<open>/[\r\n]+/\<close>: a longest run of code units
  of the class ends a piece.
\<close>

function splitRuns :: "(char \<Rightarrow> bool) \<Rightarrow> string \<Rightarrow> string \<Rightarrow> string list" where
  "splitRuns P acc [] = [rev acc]"
| "splitRuns P acc (c # cs) =
     (if P c then rev acc # splitRuns P [] (dropWhile P cs) else splitRuns P (c # acc) cs)"
  by pat_completeness auto
termination
  by (relation "measure (\<lambda>(P, acc, cs). length cs)")
     (auto simp: less_Suc_eq_le length_dropWhile_le)

definition isLineBreak :: "char \<Rightarrow> bool" where
  "isLineBreak c \<longleftrightarrow> c = CHR 0x0D \<or> c = CHR 0x0A"

text \<open>\<^verbatim>\<open>.map(word => word.trim().toLowerCase()).filter(word => word.length > 0)\<close>\<close>

definition cleanPieces :: "string list \<Rightarrow> string list" where
  "cleanPieces pieces = filter (\<lambda>word. length word > 0) (map (\<lambda>word. toLowerCase (trim word)) pieces)"

text \<open>
  The format handling of \<^verbatim>\<open>fetchWordList\<close>, lines 1584 to 1643: the value of \<^verbatim>\<open>words\<close>
  before the last filter.
\<close>

definition parseBody :: "env \<Rightarrow> string \<Rightarrow> string \<Rightarrow> string list" where
  "parseBody e url text =
     (if endsWith ''.json'' url then
        (case jsonWords e text of
           Some words \<Rightarrow> words
         | None \<Rightarrow> cleanPieces (splitRuns isLineBreak [] text))
      else if endsWith ''.csv'' url then
        filter (\<lambda>word. length word > 0)
          (map (\<lambda>line. hd (splitChar CHR '','' [] line)) (splitLines [] text))
      else if CHR 0x0A \<in> set text then cleanPieces (splitLines [] text)
      else if CHR '','' \<in> set text then cleanPieces (splitChar CHR '','' [] text)
      else if CHR '' '' \<in> set text then cleanPieces (splitRuns isSpace [] text)
      else [toLowerCase (trim text)])"

subsection \<open>\<^verbatim>\<open>fetchWordList\<close>, revision D\<close>

text \<open>\<^verbatim>\<open>url.split('/').pop()\<close>: what follows the last slash.\<close>

definition lastSegment :: "string \<Rightarrow> string" where
  "lastSegment url = last (splitChar CHR ''/'' [] url)"

definition cacheKey :: "string \<Rightarrow> string" where
  "cacheKey url = ''wordlist_'' @ lastSegment url"

text \<open>Seven days, in milliseconds.\<close>

definition freshness :: int where
  "freshness = 7 * 24 * 60 * 60 * 1000"

definition readClock :: "env \<Rightarrow> store \<Rightarrow> int \<times> store" where
  "readClock e s = (clock e (clockReads s), s\<lparr>clockReads := Suc (clockReads s)\<rparr>)"

text \<open>
  The second half of \<^verbatim>\<open>fetchWordList\<close>, lines 1561 to 1670: the request, the status,
  the parsing, the filter, and the item written to \<^verbatim>\<open>localStorage\<close>. The model takes
  \<^verbatim>\<open>setItem\<close> to succeed.
\<close>

definition download :: "env \<Rightarrow> string \<Rightarrow> store \<Rightarrow> (error + string list) \<times> store" where
  "download e url s =
     (let s1 = s\<lparr>requests := requests s @ [url]\<rparr> in
      case net e (length (requests s)) url of
        Rejected m \<Rightarrow> (Inl (NetworkFailure m), s1)
      | Aborted \<Rightarrow> (Inl Timeout, s1)
      | Http status statusText text \<Rightarrow>
          if \<not> (200 \<le> status \<and> status \<le> 299) then (Inl (BadStatus status statusText), s1)
          else
            let filteredWords = filter lowerAlphaWord (parseBody e url text) in
            if length filteredWords = 0 then (Inl (EmptyResult url), s1)
            else
              let (now, s2) = readClock e s1 in
              (Inr filteredWords,
               s2\<lparr>localStorage := (localStorage s2)(cacheKey url \<mapsto> Entry filteredWords now)\<rparr>))"

definition fetchWordList :: "env \<Rightarrow> string \<Rightarrow> store \<Rightarrow> (error + string list) \<times> store" where
  "fetchWordList e url s =
     (case localStorage s (cacheKey url) of
        Some (Entry data timestamp) \<Rightarrow>
          let (now, s1) = readClock e s in
          if now - timestamp < freshness then (Inr data, s1) else download e url s1
      | Some Malformed \<Rightarrow> download e url s
      | None \<Rightarrow> download e url s)"

subsection \<open>The sources of revision D\<close>

definition GOOGLE_COMMON :: string where
  "GOOGLE_COMMON = ''https://raw.githubusercontent.com/first20hours/google-10000-english/master/google-10000-english-usa-no-swears.txt''"

definition ENABLE :: string where
  "ENABLE = ''https://raw.githubusercontent.com/dolph/dictionary/master/enable1.txt''"

definition SCRABBLE :: string where
  "SCRABBLE = ''https://raw.githubusercontent.com/redbo/scrabble/master/dictionary.txt''"

definition WORD_FREQ :: string where
  "WORD_FREQ = ''https://raw.githubusercontent.com/hermitdave/FrequencyWords/master/content/2018/en/en_50k.txt''"

definition SIMPLE_WORDS :: string where
  "SIMPLE_WORDS = ''https://raw.githubusercontent.com/taikuukaits/SimpleWords/master/words.txt''"

definition WORDLE_ALLOWED :: string where
  "WORDLE_ALLOWED = ''https://raw.githubusercontent.com/tabatkins/wordle-list/main/words''"

definition WORDLE_ANSWERS :: string where
  "WORDLE_ANSWERS = ''https://gist.githubusercontent.com/cfreshman/a03ef2cba789d8cf00c08f767e0fad7b/raw/a9e55d7e0c08100ce62133a1fa0d9c4f0f542f2c/wordle-answers-alphabetical.txt''"

definition WORDNIK :: string where
  "WORDNIK = ''https://raw.githubusercontent.com/wordnik/wordlist/main/wordlist.txt''"

definition COMMON_MULTI :: string where
  "COMMON_MULTI = ''https://raw.githubusercontent.com/skedwards88/word_lists/main/compiled/commonWords.json''"

definition SINDRESORHUS :: string where
  "SINDRESORHUS = ''https://raw.githubusercontent.com/sindresorhus/word-list/main/words.txt''"

definition POWERLANGUAGE :: string where
  "POWERLANGUAGE = ''https://raw.githubusercontent.com/powerlanguage/word-lists/master/word-list-filtered.txt''"

definition BROKENSANDALS :: string where
  "BROKENSANDALS = ''https://raw.githubusercontent.com/brokensandals/wordlists/master/common-5-letter-words.txt''"

text \<open>The \<^verbatim>\<open>switch\<close> of \<^verbatim>\<open>fetchWordListBySource\<close>, lines 1879 to 1918.\<close>

definition sourceUrl :: "string \<Rightarrow> string" where
  "sourceUrl source =
     (if source = ''google_common'' then GOOGLE_COMMON
      else if source = ''enable'' then ENABLE
      else if source = ''scrabble'' then SCRABBLE
      else if source = ''word_freq'' then WORD_FREQ
      else if source = ''simple_words'' then SIMPLE_WORDS
      else if source = ''wordle_answers'' then WORDLE_ANSWERS
      else if source = ''wordle_allowed'' then WORDLE_ALLOWED
      else if source = ''wordnik'' then WORDNIK
      else if source = ''common_multi'' then COMMON_MULTI
      else if source = ''sindresorhus'' then SINDRESORHUS
      else if source = ''powerlanguage'' then POWERLANGUAGE
      else if source = ''brokensandals'' then BROKENSANDALS
      else GOOGLE_COMMON)"

definition FIRST_NAMES :: string where
  "FIRST_NAMES = ''https://raw.githubusercontent.com/dominictarr/random-name/master/first-names.txt''"

definition LAST_NAMES :: string where
  "LAST_NAMES = ''https://raw.githubusercontent.com/arineng/arincli/master/lib/last-names.txt''"

definition COUNTRIES :: string where
  "COUNTRIES = ''https://raw.githubusercontent.com/umpirsky/country-list/master/data/en/country.txt''"

definition CITIES :: string where
  "CITIES = ''https://raw.githubusercontent.com/lutangar/cities.json/master/cities.json''"

definition TECH_TERMS :: string where
  "TECH_TERMS = ''https://raw.githubusercontent.com/words/technological-terms/master/index.txt''"

definition MEDICAL_TERMS :: string where
  "MEDICAL_TERMS = ''https://raw.githubusercontent.com/glutanimate/wordlist-medicaleponyms-en/master/wordlist.txt''"

definition CHEMICAL_ELEMENTS :: string where
  "CHEMICAL_ELEMENTS = ''https://gist.githubusercontent.com/GoodmanSciences/c2dd862cd38f21b0ad36b8f96b4bf1ee/raw/1d92663004489a5b6926e944c1b3d9ec5c40900e/Periodic%2520Table%2520of%2520Elements.csv''"

definition INTERNET_SLANG :: string where
  "INTERNET_SLANG = ''https://raw.githubusercontent.com/both/language-dataset/master/data/internet-slang.json''"

definition ACRONYMS :: string where
  "ACRONYMS = ''https://raw.githubusercontent.com/stands4/acronym-list/master/acronyms.json''"

definition UNCOMMON_WORDS :: string where
  "UNCOMMON_WORDS = ''https://raw.githubusercontent.com/skedwards88/word_lists/main/compiled/uncommonWords.json''"

definition OFFENSIVE_WORDS :: string where
  "OFFENSIVE_WORDS = ''https://raw.githubusercontent.com/LDNOOBW/List-of-Dirty-Naughty-Obscene-and-Otherwise-Bad-Words/master/en''"

definition NON_US_WORDS :: string where
  "NON_US_WORDS = ''https://raw.githubusercontent.com/hyperreality/American-British-English-Translator/master/data/british_spellings.json''"

text \<open>\<^verbatim>\<open>SAD_SOURCES\<close>, in the order of \<^verbatim>\<open>Object.entries\<close>.\<close>

definition SAD_SOURCES :: "(string \<times> string) list" where
  "SAD_SOURCES =
     [(''FIRST_NAMES'', FIRST_NAMES),
      (''LAST_NAMES'', LAST_NAMES),
      (''COUNTRIES'', COUNTRIES),
      (''CITIES'', CITIES),
      (''TECH_TERMS'', TECH_TERMS),
      (''MEDICAL_TERMS'', MEDICAL_TERMS),
      (''CHEMICAL_ELEMENTS'', CHEMICAL_ELEMENTS),
      (''INTERNET_SLANG'', INTERNET_SLANG),
      (''ACRONYMS'', ACRONYMS),
      (''UNCOMMON_WORDS'', UNCOMMON_WORDS),
      (''OFFENSIVE_WORDS'', OFFENSIVE_WORDS),
      (''NON_US_WORDS'', NON_US_WORDS)]"

subsection \<open>\<^verbatim>\<open>fetchWordListBySource\<close>, revision D\<close>

definition fetchWordListBySource ::
    "env \<Rightarrow> string \<Rightarrow> store \<Rightarrow> (error + string list) \<times> store" where
  "fetchWordListBySource e source s =
     (case wordCache s source of
        Some cached \<Rightarrow> (Inr cached, s)
      | None \<Rightarrow>
          (case fetchWordList e (sourceUrl source) s of
             (Inr words, s1) \<Rightarrow>
               (Inr words,
                s1\<lparr>wordCache := (wordCache s1)(source \<mapsto> words),
                   errorLog := (errorLog s1)(source := None)\<rparr>)
           | (Inl err, s1) \<Rightarrow>
               let s2 = s1\<lparr>errorLog := (errorLog s1)(source \<mapsto> message err)\<rparr> in
               (case wordCache s2 ''google_common'' of
                  Some commonWords \<Rightarrow>
                    if source \<noteq> ''google_common''
                    then (Inr commonWords, s2\<lparr>wordCache := (wordCache s2)(source \<mapsto> commonWords)\<rparr>)
                    else (Inl err, s2)
                | None \<Rightarrow> (Inl err, s2))))"

subsection \<open>\<^verbatim>\<open>loadProblemWords\<close>, revision D\<close>

text \<open>
  The body of one \<^verbatim>\<open>.then\<close> of \<^verbatim>\<open>loadProblemWords\<close>: the words a fetched list adds to
  \<^verbatim>\<open>problemWords\<close>.
\<close>

definition processedWords :: "string \<Rightarrow> string list \<Rightarrow> string list" where
  "processedWords key words =
     (if key = ''CITIES'' \<or> key = ''COUNTRIES'' then
        concat (map (\<lambda>place.
          map toLowerCase
            (filter (\<lambda>word. length word \<ge> 3 \<and> lowerAlphaWord word)
               (splitRuns isSpace [] place))) words)
      else filter (\<lambda>word. length word \<ge> 3 \<and> lowerAlphaWord word) words)"

text \<open>
  One source of \<^verbatim>\<open>SAD_SOURCES\<close>: the fetch, then either the \<^verbatim>\<open>.then\<close> or the \<^verbatim>\<open>.catch\<close>,
  which only writes to the console. The twelve fetches are started together in the
  source; the model runs them one after the other, in the order of the table.
\<close>

definition loadSadSource :: "env \<Rightarrow> store \<Rightarrow> string \<times> string \<Rightarrow> store" where
  "loadSadSource e s = (\<lambda>(key, url).
     case fetchWordList e url s of
       (Inr words, s1) \<Rightarrow>
         s1\<lparr>problemWords := problemWords s1 \<union> set (map toLowerCase (processedWords key words))\<rparr>
     | (Inl err, s1) \<Rightarrow> s1)"

definition baseLetters :: string where
  "baseLetters = ''abcdefghijklmnoprstuvwxyz''"

text \<open>\<^verbatim>\<open>Math.floor(Math.random() * k)\<close>, for the draw number \<open>d\<close>.\<close>

definition randomIndex :: "env \<Rightarrow> nat \<Rightarrow> nat \<Rightarrow> nat" where
  "randomIndex e d k = rand e d mod k"

text \<open>The innermost loop of \<^verbatim>\<open>addManualPatterns\<close>: \<open>i\<close> random letters.\<close>

fun randomBase :: "env \<Rightarrow> nat \<Rightarrow> nat \<Rightarrow> string \<times> nat" where
  "randomBase e 0 d = ([], d)"
| "randomBase e (Suc i) d =
     (let c = baseLetters ! randomIndex e d (length baseLetters);
          (rest, d') = randomBase e i (Suc d)
      in (c # rest, d'))"

text \<open>The loop over \<open>j\<close>: so many samples of one length for one suffix.\<close>

fun addSamples :: "env \<Rightarrow> string \<Rightarrow> nat \<Rightarrow> nat \<Rightarrow> string set \<times> nat \<Rightarrow> string set \<times> nat" where
  "addSamples e suffix i 0 (pw, d) = (pw, d)"
| "addSamples e suffix i (Suc j) (pw, d) =
     (let (base, d') = randomBase e i d
      in addSamples e suffix i j (insert (base @ suffix) pw, d'))"

definition addPatterns ::
    "env \<Rightarrow> string list \<Rightarrow> nat list \<Rightarrow> nat \<Rightarrow> string set \<times> nat \<Rightarrow> string set \<times> nat" where
  "addPatterns e suffixes lens samples acc =
     foldl (\<lambda>acc suffix. foldl (\<lambda>acc i. addSamples e suffix i samples acc) acc lens)
       acc suffixes"

definition nationalitySuffixes :: "string list" where
  "nationalitySuffixes = [''ese'', ''ian'', ''ish'', ''ean'', ''ese'', ''ite'', ''can'', ''ani'']"

definition technicalSuffixes :: "string list" where
  "technicalSuffixes =
     [''ium'', ''ide'', ''ate'', ''ite'', ''ene'', ''ase'', ''one'', ''ane'', ''ene'', ''yne'',
      ''ol'', ''yl'', ''ose'']"

definition placeSuffixes :: "string list" where
  "placeSuffixes =
     [''land'', ''ville'', ''town'', ''burg'', ''berg'', ''shire'', ''port'', ''ford'', ''ham'',
      ''ton'']"

definition addManualPatterns :: "env \<Rightarrow> string set \<times> nat \<Rightarrow> string set \<times> nat" where
  "addManualPatterns e acc =
     addPatterns e placeSuffixes [3, 4, 5] 3
       (addPatterns e technicalSuffixes [3, 4, 5] 3
          (addPatterns e nationalitySuffixes [3, 4, 5, 6] 5 acc))"

definition loadProblemWords :: "env \<Rightarrow> store \<Rightarrow> store" where
  "loadProblemWords e s =
     (let s1 = foldl (loadSadSource e) s SAD_SOURCES;
          (pw, d) = addManualPatterns e (problemWords s1, draws s1)
      in s1\<lparr>problemWords := pw, draws := d, problemWordsLoaded := True\<rparr>)"

subsection \<open>Sampling\<close>

text \<open>
  \<^verbatim>\<open>resultWords\<close> and \<^verbatim>\<open>allWords\<close> are \<^verbatim>\<open>Set\<close>s: \<^verbatim>\<open>add\<close> appends a value that is not yet
  there, and \<^verbatim>\<open>Array.from\<close> gives the values in the order in which they came.
\<close>

definition addWord :: "string list \<Rightarrow> string \<Rightarrow> string list" where
  "addWord ws w = (if w \<in> set ws then ws else ws @ [w])"

text \<open>\<^verbatim>\<open>availableWords.splice(randomIndex, 1)\<close>\<close>

definition removeAt :: "nat \<Rightarrow> 'a list \<Rightarrow> 'a list" where
  "removeAt i xs = take i xs @ drop (Suc i) xs"

text \<open>
  \<^verbatim>\<open>count\<close> is a JavaScript \<^verbatim>\<open>number\<close>: a finite value, one of the two infinities, or
  \<^verbatim>\<open>NaN\<close>. Every finite \<^verbatim>\<open>number\<close> is a rational. The code compares a size with the
  count in two places, \<^verbatim>\<open>availableWords.length <= count\<close> and
  \<^verbatim>\<open>resultWords.size < count\<close>; every comparison with \<^verbatim>\<open>NaN\<close> is false.
\<close>

datatype number =
    Num rat
  | Infinity
  | MinusInfinity
  | NaN

fun atMostNumber :: "nat \<Rightarrow> number \<Rightarrow> bool" where
  "atMostNumber n (Num c) \<longleftrightarrow> of_nat n \<le> c"
| "atMostNumber n Infinity \<longleftrightarrow> True"
| "atMostNumber n MinusInfinity \<longleftrightarrow> False"
| "atMostNumber n NaN \<longleftrightarrow> False"

fun lessNumber :: "nat \<Rightarrow> number \<Rightarrow> bool" where
  "lessNumber n (Num c) \<longleftrightarrow> of_nat n < c"
| "lessNumber n Infinity \<longleftrightarrow> True"
| "lessNumber n MinusInfinity \<longleftrightarrow> False"
| "lessNumber n NaN \<longleftrightarrow> False"

text \<open>The \<^verbatim>\<open>while\<close> loop of lines 2082 to 2086 (and 1991 to 1995); \<open>d\<close> numbers the draws.\<close>

function sampleLoop ::
    "env \<Rightarrow> number \<Rightarrow> string list \<Rightarrow> string list \<Rightarrow> nat \<Rightarrow> string list \<times> nat" where
  "sampleLoop e count resultWords availableWords d =
     (if lessNumber (length resultWords) count \<and> length availableWords > 0 then
        let i = randomIndex e d (length availableWords) in
        sampleLoop e count (addWord resultWords (availableWords ! i))
          (removeAt i availableWords) (Suc d)
      else (resultWords, d))"
  by pat_completeness auto
termination
proof (relation "measure (\<lambda>(e, count, resultWords, availableWords, d). length availableWords)")
  show "wf (measure (\<lambda>(e, count, resultWords, availableWords, d). length availableWords))"
    by simp
next
  fix e :: env and count :: number and resultWords availableWords :: "string list"
    and d i :: nat
  assume "lessNumber (length resultWords) count \<and> 0 < length availableWords"
    and i: "i = randomIndex e d (length availableWords)"
  then have "i < length availableWords"
    by (simp add: randomIndex_def)
  then show "((e, count, addWord resultWords (availableWords ! i),
               removeAt i availableWords, Suc d),
              (e, count, resultWords, availableWords, d))
             \<in> measure (\<lambda>(e, count, resultWords, availableWords, d). length availableWords)"
    by (simp add: removeAt_def)
qed

declare sampleLoop.simps [simp del]

text \<open>
  The sampling step, lines 2069 to 2091 (and 1981 to 1997): the whole pool when it has
  no more than \<^verbatim>\<open>count\<close> words, the loop otherwise.
\<close>

definition sample :: "env \<Rightarrow> number \<Rightarrow> string list \<Rightarrow> store \<Rightarrow> string list \<times> store" where
  "sample e count validWords s =
     (if atMostNumber (length validWords) count then (validWords, s)
      else
        let (resultWords, d) = sampleLoop e count [] validWords (draws s)
        in (resultWords, s\<lparr>draws := d\<rparr>))"

subsection \<open>\<^verbatim>\<open>generateWords\<close> and \<^verbatim>\<open>generateWordsFromMultipleSources\<close>, revision D\<close>

record WordGenerationResult =
  words :: "string list"
  failedSources :: "string list"

text \<open>\<^verbatim>\<open>.filter(word => word.length === length)\<close>\<close>

definition ofLength :: "int \<Rightarrow> string list \<Rightarrow> string list" where
  "ofLength len ws = filter (\<lambda>word. int (length word) = len) ws"

definition ensureProblemWords :: "env \<Rightarrow> store \<Rightarrow> store" where
  "ensureProblemWords e s = (if \<not> problemWordsLoaded s then loadProblemWords e s else s)"

definition generateWords ::
    "env \<Rightarrow> int \<Rightarrow> string \<Rightarrow> number \<Rightarrow> store \<Rightarrow> (error + string list) \<times> store" where
  "generateWords e len source count s =
     (case fetchWordListBySource e source (ensureProblemWords e s) of
        (Inl err, s1) \<Rightarrow> (Inl err, s1)
      | (Inr fetched, s1) \<Rightarrow>
          let wordsList = ofLength len fetched in
          if length wordsList = 0 then (Inl (NoWordsOfLength len), s1)
          else
            let validWords = filter (\<lambda>word. isValid (validateWord e s1 word)) wordsList in
            if length validWords = 0 then (Inl (NoValidWords len), s1)
            else
              let (resultWords, s2) = sample e count validWords s1
              in (Inr resultWords, s2))"

text \<open>
  One turn of the loop over \<^verbatim>\<open>sources\<close>, lines 2032 to 2052. The accumulator holds
  \<^verbatim>\<open>allWords\<close>, \<^verbatim>\<open>failedSources\<close> and \<^verbatim>\<open>successSources\<close>.
\<close>

type_synonym progress = "string list \<times> string list \<times> string list"

definition processSource :: "env \<Rightarrow> int \<Rightarrow> progress \<times> store \<Rightarrow> string \<Rightarrow> progress \<times> store" where
  "processSource e len = (\<lambda>((allWords, failed, success), s) source.
     case fetchWordListBySource e source s of
       (Inr sourceWords, s1) \<Rightarrow>
         let validLengthWords = ofLength len sourceWords in
         if length validLengthWords > 0
         then ((foldl addWord allWords validLengthWords, failed, success @ [source]), s1)
         else ((allWords, failed @ [source], success), s1)
     | (Inl err, s1) \<Rightarrow> ((allWords, failed @ [source], success), s1))"

definition processSources :: "env \<Rightarrow> int \<Rightarrow> string list \<Rightarrow> store \<Rightarrow> progress \<times> store" where
  "processSources e len sources s = foldl (processSource e len) (([], [], []), s) sources"

definition generateWordsFromMultipleSources ::
    "env \<Rightarrow> int \<Rightarrow> string list \<Rightarrow> number \<Rightarrow> store \<Rightarrow> (error + WordGenerationResult) \<times> store" where
  "generateWordsFromMultipleSources e len sources count s =
     (if length sources = 0 then (Inl NoSourcesSelected, s)
      else
        let ((allWords, failed, success), s1) =
              processSources e len sources (ensureProblemWords e s);
            validWords = filter (\<lambda>word. isValid (validateWord e s1 word)) allWords
        in
          if length validWords = 0 then
            (if length failed = length sources then (Inl AllSourcesFailed, s1)
             else (Inl (NoMatches len), s1))
          else
            let (resultWords, s2) = sample e count validWords s1
            in (Inr \<lparr>words = resultWords, failedSources = failed\<rparr>, s2))"

subsection \<open>Reading the loop over the sources\<close>

text \<open>
  The results of the successive calls of \<^verbatim>\<open>fetchWordListBySource\<close> that the loop makes,
  each in the state the call before it left.
\<close>

fun fetchRun :: "env \<Rightarrow> string list \<Rightarrow> store \<Rightarrow> (error + string list) list" where
  "fetchRun e [] s = []"
| "fetchRun e (source # rest) s =
     (case fetchWordListBySource e source s of (r, s1) \<Rightarrow> r # fetchRun e rest s1)"

text \<open>
  A call contributes when it returns a list with a word of the requested length. A
  source is recorded as failed when its call raises or returns no such word.
\<close>

definition contributes :: "int \<Rightarrow> error + string list \<Rightarrow> bool" where
  "contributes len r =
     (case r of Inl err \<Rightarrow> False | Inr sourceWords \<Rightarrow> ofLength len sourceWords \<noteq> [])"

fun recordedFailed :: "int \<Rightarrow> string list \<Rightarrow> (error + string list) list \<Rightarrow> string list" where
  "recordedFailed len (source # rest) (r # rs) =
     (if contributes len r then recordedFailed len rest rs
      else source # recordedFailed len rest rs)"
| "recordedFailed len sources rs = []"

text \<open>The pool that is left after validation, \<^verbatim>\<open>validWords\<close> of line 2058.\<close>

definition validPool :: "env \<Rightarrow> int \<Rightarrow> string list \<Rightarrow> store \<Rightarrow> string list" where
  "validPool e len sources s =
     (let ((allWords, failed, success), s1) =
            processSources e len sources (ensureProblemWords e s)
      in filter (\<lambda>word. isValid (validateWord e s1 word)) allWords)"

subsection \<open>The checks of \<^verbatim>\<open>validateWord\<close>, revisions A and B\<close>

text \<open>
  \<^verbatim>\<open>hasExcessiveRepetition\<close> has the same text in revisions A, B and C (lines 153, 741
  and 1172). \<^verbatim>\<open>Math.max\<close> of no argument is minus infinity, which is not at least
  half of the length 0.
\<close>

definition hasExcessiveRepetition_B :: "string \<Rightarrow> bool" where
  "hasExcessiveRepetition_B word =
     (let counts = map snd (letterCounts word) in
      counts \<noteq> [] \<and> 2 * foldl max 0 counts \<ge> length word)"

text \<open>
  \<^verbatim>\<open>word.match(/[aeiouy]+/g)\<close>: the longest runs of code units of a class, from left to
  right.
\<close>

fun runsOf :: "(char \<Rightarrow> bool) \<Rightarrow> string \<Rightarrow> string \<Rightarrow> string list" where
  "runsOf P acc [] = (if acc = [] then [] else [rev acc])"
| "runsOf P acc (c # cs) =
     (if P c then runsOf P (c # acc) cs
      else if acc = [] then runsOf P [] cs
      else rev acc # runsOf P [] cs)"

text \<open>
  \<^verbatim>\<open>word.toUpperCase() === word\<close>: no code unit of the word changes in upper case. Below
  256 the ones that change are the lower-case letters, the micro sign, the sharp s and
  the y with diaeresis.
\<close>

definition isOwnUpperCase :: "string \<Rightarrow> bool" where
  "isOwnUpperCase word \<longleftrightarrow>
     list_all (\<lambda>c. c \<notin> set (lowerLetters @ latin1Lower @ [CHR 0xB5, CHR 0xDF, CHR 0xFF])) word"

text \<open>
  \<^verbatim>\<open>isAbbreviation\<close>, revision B, lines 751 to 777; lines 163 to 189 of revision A are
  the same text. The first test compares with the product \<^verbatim>\<open>word.length * 0.7\<close>; the
  model compares \<open>10 * consonants\<close> with \<open>7 * length\<close>, which is the same test for every
  length that is not a multiple of ten, so for every word that \<^verbatim>\<open>validateWord\<close> passes
  on.
\<close>

definition consonantCount :: "string \<Rightarrow> nat" where
  "consonantCount word = length (filter (\<lambda>c. c \<notin> vowels) word)"

definition isAbbreviation_B :: "string \<Rightarrow> bool" where
  "isAbbreviation_B word =
     (let consonants = consonantCount word in
      if 10 * consonants > 7 * length word then True
      else if length word \<le> 3 \<and> consonants \<ge> 2 then True
      else if isOwnUpperCase word \<and> length word > 1 then True
      else
        let vowelGroups = runsOf (\<lambda>c. c \<in> vowels) [] word in
        if length vowelGroups \<ge> 3 \<and> list_all (\<lambda>g. length g = 1) vowelGroups then True
        else False)"

text \<open>The number of code units of a word that are in \<^verbatim>\<open>{a, e, i, o, u, y}\<close>.\<close>

definition vowelCount :: "string \<Rightarrow> nat" where
  "vowelCount word = length (filter (\<lambda>c. c \<in> vowels) word)"

text \<open>
  \<^verbatim>\<open>hasUKSpelling\<close>, the same text in revisions A, B and C (lines 200, 779 and 1187),
  over \<^verbatim>\<open>ukSpellingPatterns\<close> (lines 35, 548 and 1154). Each pattern is compiled with
  the flag \<^verbatim>\<open>i\<close>: it matches the word whatever the case of its letters.
\<close>

definition hasUKSpelling :: "string \<Rightarrow> bool" where
  "hasUKSpelling word \<longleftrightarrow>
     (let w = toLowerCase word in
      includesStr ''our'' w
      \<or> includesStr ''ise'' w
      \<or> includesStr ''yse'' w
      \<or> endsWith ''re'' w
      \<or> endsWith ''ogue'' w
      \<or> includesStr ''ae'' w
      \<or> includesStr ''oe'' w)"

text \<open>The four patterns of lines 852 to 857 (revision A: 252 to 257).\<close>

definition uncommonPatterns_B :: "string \<Rightarrow> bool" where
  "uncommonPatterns_B word \<longleftrightarrow>
     hasRun (\<lambda>c. c \<in> set ''qwx'') 2 word
     \<or> hasRun (\<lambda>c. c \<in> set ''jzx'') 2 word
     \<or> startsWithRun (\<lambda>c. c \<in> set ''qwxzj'') 1 word
     \<or> startsWithRun (\<lambda>c. c \<notin> vowels) 3 word"

text \<open>\<^verbatim>\<open>validateWord\<close>, revision B, lines 816 to 864; revision A, lines 216 to 264, is the same text.\<close>

definition validateWord_B :: "env \<Rightarrow> string \<Rightarrow> WordValidationResult" where
  "validateWord_B e word0 =
     (if word0 = [] then rejected ''Invalid input''
      else let word = trim (toLowerCase word0) in
        if \<not> lowerAlphaWord word then rejected ''Word must contain only letters''
        else if length word < 3 \<or> length word > 9
          then rejected ''Word must be between 3 and 9 letters''
        else if isProfane e word then rejected ''Word is inappropriate''
        else if \<not> hasVowel word then rejected ''Word must contain at least one vowel''
        else if hasExcessiveRepetition_B word
          then rejected ''Word has too many repeated letters''
        else if isAbbreviation_B word
          then rejected ''Word appears to be an abbreviation or acronym''
        else if hasUKSpelling word then rejected ''UK spelling variant''
        else if uncommonPatterns_B word then rejected ''Contains uncommon letter patterns''
        else accepted)"

subsection \<open>Fetching in revision B\<close>

definition COMMON_WORDS_B :: string where
  "COMMON_WORDS_B = ''https://raw.githubusercontent.com/first20hours/google-10000-english/master/google-10000-english-usa-no-swears.txt''"

text \<open>\<^verbatim>\<open>NOUNS\<close>, \<^verbatim>\<open>VERBS\<close>, \<^verbatim>\<open>ADJECTIVES\<close> and \<^verbatim>\<open>ADVERBS\<close> are one and the same URL in revision B.\<close>

definition NOUNS_B :: string where
  "NOUNS_B = ''https://raw.githubusercontent.com/sindresorhus/word-list/main/words.txt''"

definition GSL_WORDS_B :: string where
  "GSL_WORDS_B = ''https://raw.githubusercontent.com/openvocabulary/gsl/master/gsl.txt''"

definition SCOWL_COMMON_B :: string where
  "SCOWL_COMMON_B = ''https://raw.githubusercontent.com/en-wl/wordlist/master/scowl/final/english-words.35''"

definition BNC_COMMON_B :: string where
  "BNC_COMMON_B = ''https://raw.githubusercontent.com/first20hours/google-10000-english/master/20k.txt''"

definition FALLOUT_WORDS_B :: string where
  "FALLOUT_WORDS_B = ''https://raw.githubusercontent.com/nathanlesage/academics/master/randomdata/fallout-terminal-words.txt''"

definition sourceUrl_B :: "string \<Rightarrow> string" where
  "sourceUrl_B source =
     (if source = ''common'' then COMMON_WORDS_B
      else if source = ''nouns'' then NOUNS_B
      else if source = ''verbs'' then NOUNS_B
      else if source = ''adjectives'' then NOUNS_B
      else if source = ''adverbs'' then NOUNS_B
      else if source = ''gsl'' then GSL_WORDS_B
      else if source = ''scowl'' then SCOWL_COMMON_B
      else if source = ''bnc'' then BNC_COMMON_B
      else if source = ''fallout'' then FALLOUT_WORDS_B
      else COMMON_WORDS_B)"

text \<open>One day, in milliseconds.\<close>

definition freshness_B :: int where
  "freshness_B = 24 * 60 * 60 * 1000"

text \<open>The format handling of revision B, lines 624 to 693; a \<^verbatim>\<open>.json\<close> body may throw.\<close>

definition parseBody_B :: "env \<Rightarrow> string \<Rightarrow> string \<Rightarrow> error + string list" where
  "parseBody_B e url text =
     (if endsWith ''.json'' url then
        (case jsonEntries_B e text of
           Some entries \<Rightarrow> Inr entries
         | None \<Rightarrow> Inl (InvalidJson (jsonError_B e text)))
      else if CHR 0x0A \<in> set text then Inr (cleanPieces (splitLines [] text))
      else if CHR '','' \<in> set text then Inr (cleanPieces (splitChar CHR '','' [] text))
      else if CHR '' '' \<in> set text then Inr (cleanPieces (splitRuns isSpace [] text))
      else Inr [toLowerCase (trim text)])"

definition download_B :: "env \<Rightarrow> string \<Rightarrow> store \<Rightarrow> (error + string list) \<times> store" where
  "download_B e url s =
     (let s1 = s\<lparr>requests := requests s @ [url]\<rparr> in
      case net e (length (requests s)) url of
        Rejected m \<Rightarrow> (Inl (NetworkFailure m), s1)
      | Aborted \<Rightarrow> (Inl Timeout, s1)
      | Http status statusText text \<Rightarrow>
          if \<not> (200 \<le> status \<and> status \<le> 299) then (Inl (BadStatus status statusText), s1)
          else
            (case parseBody_B e url text of
               Inl err \<Rightarrow> (Inl err, s1)
             | Inr parsed \<Rightarrow>
                 let filteredWords =
                       filter (\<lambda>word. length word > 0 \<and> lowerAlphaWord word)
                         (map (\<lambda>word. toLowerCase (trim word)) parsed) in
                 if length filteredWords = 0 then (Inl (EmptyResult url), s1)
                 else
                   let (now, s2) = readClock e s1 in
                   (Inr filteredWords,
                    s2\<lparr>localStorage :=
                         (localStorage s2)(cacheKey url \<mapsto> Entry filteredWords now)\<rparr>)))"

definition fetchWordList_B :: "env \<Rightarrow> string \<Rightarrow> store \<Rightarrow> (error + string list) \<times> store" where
  "fetchWordList_B e url s =
     (case localStorage s (cacheKey url) of
        Some (Entry data timestamp) \<Rightarrow>
          let (now, s1) = readClock e s in
          if now - timestamp < freshness_B then (Inr data, s1) else download_B e url s1
      | Some Malformed \<Rightarrow> download_B e url s
      | None \<Rightarrow> download_B e url s)"

text \<open>\<^verbatim>\<open>WORD_CATEGORIES\<close>, lines 527 to 543, and \<^verbatim>\<open>detectWordCategory\<close>, lines 796 to 814.\<close>

definition endsWithAfter :: "(char \<Rightarrow> bool) \<Rightarrow> string \<Rightarrow> string \<Rightarrow> bool" where
  "endsWithAfter P suffix w \<longleftrightarrow>
     endsWith suffix w \<and> length suffix < length w \<and> P (rev w ! length suffix)"

definition plainVowel :: "char \<Rightarrow> bool" where
  "plainVowel c \<longleftrightarrow> c \<in> set ''aeiou''"

definition isNoun :: "string \<Rightarrow> bool" where
  "isNoun word \<longleftrightarrow>
     endsWithAfter (\<lambda>c. \<not> plainVowel c) ''tion'' word
     \<or> list_ex (\<lambda>suffix. endsWith suffix word)
          [''ment'', ''ence'', ''ance'', ''ity'', ''ness'', ''ship'', ''dom'', ''hood'', ''ism'']"

definition isVerb :: "string \<Rightarrow> bool" where
  "isVerb word \<longleftrightarrow>
     endsWithAfter plainVowel ''te'' word
     \<or> list_ex (\<lambda>suffix. endsWith suffix word) [''ize'', ''ise'', ''ify'', ''ate'']
     \<or> (take 2 word = ''re'' \<and> 2 < length word \<and> \<not> plainVowel (word ! 2))
     \<or> endsWithAfter plainVowel ''n'' word
     \<or> endsWithAfter (\<lambda>c. \<not> plainVowel c) ''er'' word"

definition isAdjective :: "string \<Rightarrow> bool" where
  "isAdjective word \<longleftrightarrow>
     list_ex (\<lambda>suffix. endsWith suffix word)
       [''ful'', ''ous'', ''ive'', ''ble'', ''cal'', ''ary'', ''ic'', ''al'', ''ish'', ''like'', ''ly'']"

definition isAdverb :: "string \<Rightarrow> bool" where
  "isAdverb word \<longleftrightarrow> endsWith ''ly'' word"

definition categoryFilter_B :: "string \<Rightarrow> string \<Rightarrow> bool" where
  "categoryFilter_B source word =
     (if source = ''nouns'' then isNoun word
      else if source = ''verbs'' then isVerb word
      else if source = ''adjectives'' then isAdjective word
      else if source = ''adverbs'' then isAdverb word
      else True)"

text \<open>\<^verbatim>\<open>fetchWordListBySource\<close>, revision B, lines 920 to 995.\<close>

definition fetchWordListBySource_B ::
    "env \<Rightarrow> string \<Rightarrow> store \<Rightarrow> (error + string list) \<times> store" where
  "fetchWordListBySource_B e source s =
     (case wordCache s source of
        Some cached \<Rightarrow> (Inr cached, s)
      | None \<Rightarrow>
          (case fetchWordList_B e (sourceUrl_B source) s of
             (Inr wordsList, s1) \<Rightarrow>
               if (source = ''nouns'' \<or> source = ''verbs'' \<or> source = ''adjectives''
                   \<or> source = ''adverbs'') \<and> sourceUrl_B source = NOUNS_B
               then
                 let filteredWords = filter (categoryFilter_B source) wordsList in
                 (Inr filteredWords, s1\<lparr>wordCache := (wordCache s1)(source \<mapsto> filteredWords)\<rparr>)
               else (Inr wordsList, s1\<lparr>wordCache := (wordCache s1)(source \<mapsto> wordsList)\<rparr>)
           | (Inl err, s1) \<Rightarrow>
               (Inl err, s1\<lparr>errorLog := (errorLog s1)(source \<mapsto> message err)\<rparr>)))"

subsection \<open>Platforms and states for the examples\<close>

text \<open>A platform on which only the list of first names can be fetched; it holds one name.\<close>

definition namesEnv :: env where
  "namesEnv = quietEnv\<lparr>net := (\<lambda>n url.
     if url = FIRST_NAMES then Http 200 ''OK'' ''paris'' else Rejected ''Failed to fetch'')\<rparr>"

text \<open>A platform that answers the first request with two words and rejects every later one.\<close>

definition onceEnv :: env where
  "onceEnv = quietEnv\<lparr>net := (\<lambda>n url.
     if n = 0 then Http 200 ''OK'' (''apple'' @ [CHR 0x0A] @ ''grape'')
     else Rejected ''Failed to fetch'')\<rparr>"

text \<open>A platform that answers the first request with status 404 and every later one with a word.\<close>

definition flakyEnv :: env where
  "flakyEnv = quietEnv\<lparr>net := (\<lambda>n url.
     if n = 0 then Http 404 ''Not Found'' [] else Http 200 ''OK'' ''apple'')\<rparr>"

text \<open>A platform on which one list can be fetched and every other URL answers with status 404.\<close>

definition commonOnlyEnv :: env where
  "commonOnlyEnv = quietEnv\<lparr>net := (\<lambda>n url.
     if url = GOOGLE_COMMON then Http 200 ''OK'' ''apple'' else Http 404 ''Not Found'' [])\<rparr>"

text \<open>An object whose problem words are loaded.\<close>

definition readyStore :: store where
  "readyStore = newStore\<lparr>problemWords := {''paris''}, problemWordsLoaded := True\<rparr>"

text \<open>The same with one list in the in-memory cache.\<close>

definition scrabbleStore :: store where
  "scrabbleStore = readyStore\<lparr>wordCache := [''scrabble'' \<mapsto> [''tree'', ''xylem'']]\<rparr>"

text \<open>The same with the list of \<^verbatim>\<open>google_common\<close> in the in-memory cache too.\<close>

definition cachedStore :: store where
  "cachedStore = scrabbleStore\<lparr>wordCache :=
     (wordCache scrabbleStore)(''google_common'' \<mapsto> [''apple''])\<rparr>"

text \<open>
  An object whose problem words are loaded and whose in-memory cache holds a list of
  \<^verbatim>\<open>google_common\<close> with one word, which \<^verbatim>\<open>validateWord\<close> rejects.
\<close>

definition xylemStore :: store where
  "xylemStore = readyStore\<lparr>wordCache := [''google_common'' \<mapsto> [''xylem'']]\<rparr>"

section \<open>Properties\<close>

lemmas string_eval =
  toLowerCase_def toLowerChar_def trim_def isSpace_def lowerAlphaWord_def isLowerAlpha_def
  lowerLetters_def upperLetters_def latin1Upper_def latin1Lower_def endsWith_def
  startsWithRun_def

lemmas check_eval =
  hasVowel_def vowels_def hasExcessiveRepetition_def letterCounts_def mostFrequent_def
  pickMax_def isUKSpelling_def hasUncommonLetterPatterns_def accepted_def rejected_def

subsection \<open>Letter counts\<close>

lemma map_of_countLetter:
  "map_of (countLetter al x) =
     (map_of al)(x \<mapsto> (case map_of al x of None \<Rightarrow> 1 | Some n \<Rightarrow> n + 1))"
  by (induction al x rule: countLetter.induct) (auto simp: fun_eq_iff)

lemma map_of_foldl_countLetter:
  "map_of (foldl countLetter al w) c =
     (case map_of al c of
        None \<Rightarrow> if c \<in> set w then Some (count_list w c) else None
      | Some n \<Rightarrow> Some (n + count_list w c))"
proof (induction w arbitrary: al)
  case Nil
  then show ?case by (simp split: option.split)
next
  case (Cons x w)
  show ?case
    by (simp add: Cons.IH map_of_countLetter split: option.split)
qed

lemma letterCounts_count:
  "c \<in> set w \<Longrightarrow> (c, count_list w c) \<in> set (letterCounts w)"
  by (rule map_of_SomeD) (simp add: letterCounts_def map_of_foldl_countLetter)

lemma foldl_pickMax_ge:
  "snd acc \<le> snd (foldl pickMax acc counts)
   \<and> (\<forall>(c, n) \<in> set counts. n \<le> snd (foldl pickMax acc counts))"
proof (induction counts arbitrary: acc)
  case Nil
  then show ?case by simp
next
  case (Cons p counts)
  obtain mc mn where acc: "acc = (mc, mn)" by (cases acc)
  obtain c n where p: "p = (c, n)" by (cases p)
  have step: "snd acc \<le> snd (pickMax acc p)" "n \<le> snd (pickMax acc p)"
    by (simp_all add: acc p pickMax_def)
  from Cons.IH [of "pickMax acc p"] step show ?case
    by (auto simp: p intro: order_trans)
qed

lemma mostFrequent_ge:
  "(c, n) \<in> set counts \<Longrightarrow> n \<le> snd (mostFrequent counts)"
  using foldl_pickMax_ge [of "(None, 0)" counts]
  by (auto simp: mostFrequent_def)

text \<open>A word that passes the repetition check has no letter in more than half its places.\<close>

lemma not_excessive_bound:
  assumes "\<not> hasExcessiveRepetition w"
  shows "count_list w c \<le> length w div 2"
proof (cases "c \<in> set w")
  case True
  then have "count_list w c \<le> snd (mostFrequent (letterCounts w))"
    by (rule mostFrequent_ge [OF letterCounts_count])
  moreover from assms have "\<not> snd (mostFrequent (letterCounts w)) > length w div 2"
    by (auto simp: hasExcessiveRepetition_def Let_def split: prod.splits if_splits)
  ultimately show ?thesis by simp
next
  case False
  then show ?thesis by (simp add: count_list_0_iff)
qed

subsection \<open>What an accepted word looks like (revision D)\<close>

text \<open>
  Claim C1, as amended. \<^verbatim>\<open>validateWord\<close> lower-cases and trims its argument before any
  check. For every string \<open>w\<close> that it accepts, the lower-cased and trimmed form of
  \<open>w\<close> matches \<^verbatim>\<open>^[a-z]+$\<close>, has between 3 and 9 letters, contains one of
  \<^verbatim>\<open>a, e, i, o, u, y\<close>, and no letter occurs in it more than \<open>ceil(len / 2)\<close> times.
\<close>

theorem validateWord_accepts_normal_form:
  assumes "isValid (validateWord e s w)"
  shows "lowerAlphaWord (trim (toLowerCase w))
     \<and> 3 \<le> length (trim (toLowerCase w)) \<and> length (trim (toLowerCase w)) \<le> 9
     \<and> (\<exists>c \<in> set (trim (toLowerCase w)). c \<in> set ''aeiouy'')
     \<and> (\<forall>c. count_list (trim (toLowerCase w)) c \<le> (length (trim (toLowerCase w)) + 1) div 2)"
proof -
  let ?n = "trim (toLowerCase w)"
  from assms have ok: "lowerAlphaWord ?n" "3 \<le> length ?n" "length ?n \<le> 9" "hasVowel ?n"
      "\<not> hasExcessiveRepetition ?n"
    by (auto simp: validateWord_def Let_def rejected_def split: if_splits)
  have "count_list ?n c \<le> (length ?n + 1) div 2" for c
    using not_excessive_bound [OF ok(5), of c] by linarith
  with ok show ?thesis
    by (auto simp: hasVowel_def vowels_def list_ex_iff)
qed

theorem validateWord_accepts_normal_form_witness:
  "isValid (validateWord quietEnv newStore ''  Garden    '')
   \<and> trim (toLowerCase ''  Garden    '') = ''garden''
   \<and> lowerAlphaWord ''garden'' \<and> 3 \<le> length ''garden'' \<and> length ''garden'' \<le> 9
   \<and> (\<exists>c \<in> set ''garden''. c \<in> set ''aeiouy'')
   \<and> (\<forall>c. count_list ''garden'' c \<le> (length ''garden'' + 1) div 2)"
proof -
  have valid: "isValid (validateWord quietEnv newStore ''  Garden    '')"
    by (simp add: validateWord_def quietEnv_def newStore_def string_eval check_eval)
  have norm: "trim (toLowerCase ''  Garden    '') = ''garden''"
    by (simp add: string_eval)
  from validateWord_accepts_normal_form [OF valid] valid norm show ?thesis
    by simp
qed

text \<open>
  The claim as the specification states it speaks of \<open>w\<close> itself. The string of two
  spaces, \<^verbatim>\<open>Garden\<close> and four spaces is accepted, does not match \<^verbatim>\<open>^[a-z]+$\<close> and has
  twelve code units.
\<close>

theorem validateWord_raw_counterexample:
  "isValid (validateWord quietEnv newStore ''  Garden    '')
   \<and> \<not> lowerAlphaWord ''  Garden    ''
   \<and> \<not> length ''  Garden    '' \<le> 9"
  by (simp add: validateWord_def quietEnv_def newStore_def string_eval check_eval)

lemmas check_eval_B =
  hasExcessiveRepetition_B_def isAbbreviation_B_def isOwnUpperCase_def hasUKSpelling_def
  uncommonPatterns_B_def validateWord_B_def consonantCount_def vowelCount_def

lemmas fetch_eval =
  fetchWordList_def download_def parseBody_def cleanPieces_def cacheKey_def lastSegment_def
  readClock_def freshness_def isLineBreak_def

subsection \<open>The regional-spelling check\<close>

lemma endsWith_iff: "endsWith s w \<longleftrightarrow> (\<exists>p. w = p @ s)"
proof
  assume "endsWith s w"
  then have "take (length s) (rev w) = rev s" by (simp add: endsWith_def)
  then have "rev w = rev s @ drop (length s) (rev w)"
    by (metis append_take_drop_id)
  then have "w = rev (drop (length s) (rev w)) @ s"
    by (metis rev_append rev_rev_ident)
  then show "\<exists>p. w = p @ s" ..
next
  assume "\<exists>p. w = p @ s"
  then show "endsWith s w" by (auto simp: endsWith_def)
qed

lemma includesStr_iff: "includesStr s w \<longleftrightarrow> (\<exists>p q. w = p @ s @ q)"
proof (induction w)
  case Nil
  then show ?case by auto
next
  case (Cons c cs)
  have "take (length s) (c # cs) = s \<longleftrightarrow> (\<exists>q. c # cs = s @ q)"
    by (metis append_eq_conv_conj append_take_drop_id)
  moreover have "(\<exists>p q. c # cs = p @ s @ q) \<longleftrightarrow> (\<exists>q. c # cs = s @ q) \<or> (\<exists>p q. cs = p @ s @ q)"
  proof
    assume "\<exists>p q. c # cs = p @ s @ q"
    then obtain p q where pq: "c # cs = p @ s @ q" by blast
    show "(\<exists>q. c # cs = s @ q) \<or> (\<exists>p q. cs = p @ s @ q)"
    proof (cases p)
      case Nil
      with pq show ?thesis by auto
    next
      case (Cons a p')
      with pq have "cs = p' @ s @ q" by simp
      then show ?thesis by blast
    qed
  next
    assume "(\<exists>q. c # cs = s @ q) \<or> (\<exists>p q. cs = p @ s @ q)"
    then show "\<exists>p q. c # cs = p @ s @ q"
    proof
      assume "\<exists>q. c # cs = s @ q"
      then obtain q where "c # cs = [] @ s @ q" by auto
      then show ?thesis by blast
    next
      assume "\<exists>p q. cs = p @ s @ q"
      then obtain p q where "c # cs = (c # p) @ s @ q" by auto
      then show ?thesis by blast
    qed
  qed
  ultimately show ?case using Cons.IH by simp
qed

text \<open>
  The two checks, pattern by pattern. In revision D the check \<^verbatim>\<open>isUKSpelling\<close> rejects a
  word exactly when it matches one of \<^verbatim>\<open>our$\<close>, \<^verbatim>\<open>ise$\<close>, \<^verbatim>\<open>yse$\<close>, \<^verbatim>\<open>re$\<close>, \<^verbatim>\<open>ogue$\<close>, \<^verbatim>\<open>ae\<close>,
  \<^verbatim>\<open>oe\<close>. In revisions A, B and C the check \<^verbatim>\<open>hasUKSpelling\<close> rejects a word exactly
  when, whatever the case of its letters, it contains \<^verbatim>\<open>our\<close>, \<^verbatim>\<open>ise\<close>, \<^verbatim>\<open>yse\<close>, \<^verbatim>\<open>ae\<close> or
  \<^verbatim>\<open>oe\<close> anywhere, or ends with \<^verbatim>\<open>re\<close> or \<^verbatim>\<open>ogue\<close>.
\<close>

lemma uk_spelling_by_revision:
  "(isUKSpelling w \<longleftrightarrow>
      (\<exists>p. w = p @ ''our'') \<or> (\<exists>p. w = p @ ''ise'') \<or> (\<exists>p. w = p @ ''yse'')
      \<or> (\<exists>p. w = p @ ''re'') \<or> (\<exists>p. w = p @ ''ogue'')
      \<or> (\<exists>p q. w = p @ ''ae'' @ q) \<or> (\<exists>p q. w = p @ ''oe'' @ q))
   \<and> (hasUKSpelling w \<longleftrightarrow>
      (\<exists>p q. toLowerCase w = p @ ''our'' @ q) \<or> (\<exists>p q. toLowerCase w = p @ ''ise'' @ q)
      \<or> (\<exists>p q. toLowerCase w = p @ ''yse'' @ q)
      \<or> (\<exists>p. toLowerCase w = p @ ''re'') \<or> (\<exists>p. toLowerCase w = p @ ''ogue'')
      \<or> (\<exists>p q. toLowerCase w = p @ ''ae'' @ q) \<or> (\<exists>p q. toLowerCase w = p @ ''oe'' @ q))"
  unfolding isUKSpelling_def hasUKSpelling_def Let_def endsWith_iff includesStr_iff
  by (rule conjI; rule refl)

lemma uk_spelling_by_revision_example:
  "isUKSpelling ''colour'' \<and> \<not> isUKSpelling ''course'' \<and> hasUKSpelling ''Course''"
proof -
  have a: "isUKSpelling ''colour''"
    by (rule uk_spelling_by_revision [THEN conjunct1, THEN iffD2])
      (rule disjI1, rule exI [of _ "''col''"], simp)
  have b: "hasUKSpelling ''Course''"
    by (rule uk_spelling_by_revision [THEN conjunct2, THEN iffD2])
      (rule disjI1, rule exI [of _ "''c''"], rule exI [of _ "''se''"], simp add: string_eval)
  have c: "\<not> isUKSpelling ''course''" by (simp add: isUKSpelling_def endsWith_def)
  from a b c show ?thesis by simp
qed

text \<open>
  Claim C7. The regional-spelling check rejects a word exactly when it matches one of
  \<^verbatim>\<open>our$\<close>, \<^verbatim>\<open>ise$\<close>, \<^verbatim>\<open>yse$\<close>, \<^verbatim>\<open>re$\<close>, \<^verbatim>\<open>ogue$\<close>, \<^verbatim>\<open>ae\<close>, \<^verbatim>\<open>oe\<close>, so a word with \<^verbatim>\<open>our\<close>
  strictly inside is not rejected by it. Revision D does this, and \<^verbatim>\<open>course\<close> passes
  its check. Revisions A, B and C write the first three patterns without the \<^verbatim>\<open>$\<close>
  that the next two have: \<^verbatim>\<open>course\<close> matches none of the seven patterns, and their
  \<^verbatim>\<open>hasUKSpelling\<close> rejects it, with \<^verbatim>\<open>validateWord\<close> giving the reason of this check.
\<close>

theorem hasUKSpelling_rejects_inside:
  "hasUKSpelling ''course''
   \<and> reason (validateWord_B quietEnv ''course'') = Some ''UK spelling variant''
   \<and> \<not> isUKSpelling ''course''
   \<and> \<not> endsWith ''our'' ''course'' \<and> \<not> endsWith ''ise'' ''course''
   \<and> \<not> endsWith ''yse'' ''course'' \<and> \<not> endsWith ''re'' ''course''
   \<and> \<not> endsWith ''ogue'' ''course'' \<and> \<not> includesStr ''ae'' ''course''
   \<and> \<not> includesStr ''oe'' ''course''"
  by (simp add: check_eval_B quietEnv_def string_eval check_eval)

subsection \<open>Words of three letters (revisions A and B)\<close>










subsection \<open>What \<^verbatim>\<open>fetchWordList\<close> leaves alone\<close>

lemma download_frame:
  assumes "download e url s = (r, s')"
  shows "wordCache s' = wordCache s \<and> errorLog s' = errorLog s
     \<and> problemWords s' = problemWords s \<and> problemWordsLoaded s' = problemWordsLoaded s
     \<and> draws s' = draws s"
  using assms
  by (auto simp: download_def readClock_def Let_def split: response.splits if_splits)

lemma fetchWordList_frame:
  assumes "fetchWordList e url s = (r, s')"
  shows "wordCache s' = wordCache s \<and> errorLog s' = errorLog s
     \<and> problemWords s' = problemWords s \<and> problemWordsLoaded s' = problemWordsLoaded s
     \<and> draws s' = draws s"
proof (cases "localStorage s (cacheKey url)")
  case None
  with assms show ?thesis by (simp add: fetchWordList_def download_frame)
next
  case (Some item)
  show ?thesis
  proof (cases item)
    case Malformed
    with Some assms show ?thesis by (simp add: fetchWordList_def download_frame)
  next
    case (Entry data timestamp)
    show ?thesis
    proof (cases "clock e (clockReads s) - timestamp < freshness")
      case True
      with Some Entry assms show ?thesis
        by (auto simp: fetchWordList_def readClock_def)
    next
      case False
      with Some Entry assms
      have "download e url (s\<lparr>clockReads := Suc (clockReads s)\<rparr>) = (r, s')"
        by (simp add: fetchWordList_def readClock_def)
      from download_frame [OF this] show ?thesis by simp
    qed
  qed
qed

subsection \<open>Loading the problem words\<close>

lemma loadSadSource_mono: "problemWords s \<subseteq> problemWords (loadSadSource e s src)"
proof -
  obtain key url where src: "src = (key, url)" by (cases src)
  obtain r s1 where f: "fetchWordList e url s = (r, s1)" by (cases "fetchWordList e url s")
  from fetchWordList_frame [OF f] have "problemWords s1 = problemWords s" by simp
  with f src show ?thesis
    by (cases r) (auto simp: loadSadSource_def)
qed

lemma foldl_loadSadSource_mono:
  "problemWords s \<subseteq> problemWords (foldl (loadSadSource e) s srcs)"
proof (induction srcs arbitrary: s)
  case Nil
  then show ?case by simp
next
  case (Cons src srcs)
  from loadSadSource_mono [of s e src] Cons.IH [of "loadSadSource e s src"]
  show ?case by auto
qed

lemma addSamples_mono: "pw \<subseteq> fst (addSamples e suffix i j (pw, d))"
proof (induction j arbitrary: pw d)
  case 0
  then show ?case by simp
next
  case (Suc j)
  obtain base d' where b: "randomBase e i d = (base, d')" by (cases "randomBase e i d")
  from Suc.IH [of "insert (base @ suffix) pw" d'] b show ?case by auto
qed

lemma foldl_addSamples_mono:
  "fst acc \<subseteq> fst (foldl (\<lambda>acc i. addSamples e suffix i m acc) acc lens)"
proof (induction lens arbitrary: acc)
  case Nil
  then show ?case by simp
next
  case (Cons i lens)
  obtain pw d where acc: "acc = (pw, d)" by (cases acc)
  from addSamples_mono [of pw e suffix i m d] Cons.IH [of "addSamples e suffix i m acc"] acc
  show ?case by auto
qed

lemma addPatterns_mono: "fst acc \<subseteq> fst (addPatterns e suffixes lens m acc)"
  unfolding addPatterns_def
proof (induction suffixes arbitrary: acc)
  case Nil
  then show ?case by simp
next
  case (Cons suffix suffixes)
  from foldl_addSamples_mono [of acc e suffix m lens]
    Cons.IH [of "foldl (\<lambda>acc i. addSamples e suffix i m acc) acc lens"]
  show ?case by auto
qed

lemma addManualPatterns_mono: "fst acc \<subseteq> fst (addManualPatterns e acc)"
  unfolding addManualPatterns_def
  by (meson addPatterns_mono order_trans)

lemma loadProblemWords_loaded: "problemWordsLoaded (loadProblemWords e s)"
  by (simp add: loadProblemWords_def Let_def split: prod.splits)

lemma loadProblemWords_mono:
  "problemWords (foldl (loadSadSource e) s SAD_SOURCES) \<subseteq> problemWords (loadProblemWords e s)"
  using addManualPatterns_mono
    [of "(problemWords (foldl (loadSadSource e) s SAD_SOURCES),
          draws (foldl (loadSadSource e) s SAD_SOURCES))" e]
  by (auto simp: loadProblemWords_def Let_def split: prod.splits)

lemma first_names_loaded:
  "''paris'' \<in> problemWords (loadSadSource namesEnv newStore
      (''FIRST_NAMES'', FIRST_NAMES))"
  by (simp add: loadSadSource_def fetch_eval namesEnv_def quietEnv_def newStore_def
      processedWords_def string_eval Let_def FIRST_NAMES_def)

lemma paris_is_problem_word: "''paris'' \<in> problemWords (loadProblemWords namesEnv newStore)"
proof -
  have "foldl (loadSadSource namesEnv) newStore SAD_SOURCES =
      foldl (loadSadSource namesEnv)
        (loadSadSource namesEnv newStore (''FIRST_NAMES'', FIRST_NAMES)) (tl SAD_SOURCES)"
    by (simp add: SAD_SOURCES_def)
  with first_names_loaded
    foldl_loadSadSource_mono [of "loadSadSource namesEnv newStore (''FIRST_NAMES'', FIRST_NAMES)"
      namesEnv "tl SAD_SOURCES"]
  have "''paris'' \<in> problemWords (foldl (loadSadSource namesEnv) newStore SAD_SOURCES)"
    by auto
  with loadProblemWords_mono [of namesEnv newStore] show ?thesis by blast
qed

subsection \<open>\<^verbatim>\<open>validateWord\<close> and the state of the object (revision D)\<close>

text \<open>
  Claim C6, as amended. \<^verbatim>\<open>validateWord\<close> returns a result and nothing else: it performs
  no I/O and changes no field. Its result is a function of the word, of the profanity
  filter and of the two fields \<^verbatim>\<open>problemWordsLoaded\<close> and \<^verbatim>\<open>problemWords\<close>: two calls with
  the same word return the same result when the flag is the same at both calls and,
  if it is set, the set of problem words is the same too. No other field matters.
\<close>

theorem validateWord_state_frame:
  assumes "problemWordsLoaded s = problemWordsLoaded s'"
    and "problemWordsLoaded s \<longrightarrow> problemWords s = problemWords s'"
  shows "validateWord e s w = validateWord e s' w"
  using assms by (auto simp: validateWord_def Let_def)

theorem validateWord_state_frame_witness:
  "problemWordsLoaded readyStore \<and> problemWordsLoaded cachedStore
   \<and> problemWords readyStore = problemWords cachedStore
   \<and> wordCache readyStore ''scrabble'' \<noteq> wordCache cachedStore ''scrabble''
   \<and> validateWord quietEnv readyStore ''paris'' = validateWord quietEnv cachedStore ''paris''"
proof -
  have a: "problemWordsLoaded readyStore = problemWordsLoaded cachedStore"
    and b: "problemWordsLoaded readyStore \<longrightarrow> problemWords readyStore = problemWords cachedStore"
    and c: "problemWordsLoaded readyStore" "problemWordsLoaded cachedStore"
      "problemWords readyStore = problemWords cachedStore"
      "wordCache readyStore ''scrabble'' \<noteq> wordCache cachedStore ''scrabble''"
    by (simp_all add: cachedStore_def scrabbleStore_def readyStore_def newStore_def)
  from validateWord_state_frame [OF a b, of quietEnv "''paris''"] c show ?thesis by simp
qed

text \<open>
  The two fields change during the life of the object: the constructor starts
  \<^verbatim>\<open>loadProblemWords\<close> and does not wait for it. On a platform whose list of first names
  holds \<^verbatim>\<open>paris\<close>, the word is accepted by a new object and rejected once the loading is
  done.
\<close>

theorem validateWord_changes_counterexample:
  "validateWord namesEnv newStore ''paris'' = accepted
   \<and> validateWord namesEnv (loadProblemWords namesEnv newStore) ''paris''
       = rejected ''Word is in the problematic words list''"
proof -
  have norm: "trim (toLowerCase ''paris'') = ''paris''" by (simp add: string_eval)
  have checks: "lowerAlphaWord ''paris''" "\<not> isProfane namesEnv ''paris''" "hasVowel ''paris''"
    "\<not> hasExcessiveRepetition ''paris''" "\<not> isUKSpelling ''paris''"
    "\<not> hasUncommonLetterPatterns ''paris''"
    by (simp_all add: namesEnv_def quietEnv_def string_eval hasVowel_def vowels_def hasExcessiveRepetition_def letterCounts_def mostFrequent_def
  pickMax_def isUKSpelling_def hasUncommonLetterPatterns_def)
  have before: "validateWord namesEnv newStore ''paris'' = accepted"
    using checks by (simp add: validateWord_def norm newStore_def)
  have after: "validateWord namesEnv (loadProblemWords namesEnv newStore) ''paris''
       = rejected ''Word is in the problematic words list''"
    using checks paris_is_problem_word loadProblemWords_loaded [of namesEnv newStore]
    by (simp add: validateWord_def norm)
  from before after show ?thesis by simp
qed

lemmas store_eval = cachedStore_def scrabbleStore_def readyStore_def newStore_def

lemma xylem_invalid: "\<not> isValid (validateWord quietEnv s ''xylem'')"
  by (simp add: validateWord_def quietEnv_def string_eval check_eval Let_def)

lemma apple_valid:
  "isValid (validateWord e s ''apple'')
     \<longleftrightarrow> \<not> isProfane e ''apple'' \<and> \<not> (problemWordsLoaded s \<and> ''apple'' \<in> problemWords s)"
  by (simp add: validateWord_def string_eval check_eval Let_def)

subsection \<open>The persisted cache\<close>

lemma download_persists:
  assumes "download e url s = (Inr ws, s')"
  shows "\<exists>t. localStorage s' (cacheKey url) = Some (Entry ws t)"
  using assms
  by (auto simp: download_def readClock_def Let_def split: response.splits if_splits)

lemma fetchWordList_persists:
  assumes "fetchWordList e url s = (Inr ws, s')"
  shows "\<exists>t. localStorage s' (cacheKey url) = Some (Entry ws t)"
proof (cases "localStorage s (cacheKey url)")
  case None
  with assms show ?thesis by (simp add: fetchWordList_def download_persists)
next
  case (Some item)
  show ?thesis
  proof (cases item)
    case Malformed
    with Some assms show ?thesis by (simp add: fetchWordList_def download_persists)
  next
    case (Entry data timestamp)
    show ?thesis
    proof (cases "clock e (clockReads s) - timestamp < freshness")
      case True
      with Some Entry assms show ?thesis
        by (auto simp: fetchWordList_def readClock_def)
    next
      case False
      with Some Entry assms
      have "download e url (s\<lparr>clockReads := Suc (clockReads s)\<rparr>) = (Inr ws, s')"
        by (simp add: fetchWordList_def readClock_def)
      then show ?thesis by (rule download_persists)
    qed
  qed
qed

lemma fetchWordList_fresh:
  assumes "localStorage s (cacheKey url) = Some (Entry data t)"
    and "clock e (clockReads s) - t < freshness"
  shows "fetchWordList e url s = (Inr data, s\<lparr>clockReads := Suc (clockReads s)\<rparr>)"
  using assms by (simp add: fetchWordList_def readClock_def)

text \<open>
  Claim C5. A fetch that succeeds leaves its list in the persisted cache under the key
  of the URL. A fetch that finds an entry under that key whose age is within the
  freshness window returns exactly the list of the entry, makes no request and leaves
  the persisted cache as it is.
\<close>

theorem fetchWordList_cache_roundtrip:
  "(fetchWordList e url s0 = (Inr ws, s1) \<longrightarrow>
      (\<exists>t. localStorage s1 (cacheKey url) = Some (Entry ws t)))
   \<and> (localStorage s (cacheKey url) = Some (Entry ws t)
        \<and> clock e (clockReads s) - t < freshness \<longrightarrow>
      fst (fetchWordList e url s) = Inr ws
      \<and> requests (snd (fetchWordList e url s)) = requests s
      \<and> localStorage (snd (fetchWordList e url s)) = localStorage s)"
  using fetchWordList_persists [of e url s0 ws s1] fetchWordList_fresh [of s url ws t e]
  by auto

theorem fetchWordList_cache_roundtrip_witness:
  "fetchWordList onceEnv ENABLE newStore
     = (Inr [''apple'', ''grape''],
        newStore\<lparr>localStorage := [cacheKey ENABLE \<mapsto> Entry [''apple'', ''grape''] 0],
                  requests := [ENABLE], clockReads := 1\<rparr>)
   \<and> fst (fetchWordList onceEnv ENABLE (snd (fetchWordList onceEnv ENABLE newStore)))
       = Inr [''apple'', ''grape'']
   \<and> requests (snd (fetchWordList onceEnv ENABLE (snd (fetchWordList onceEnv ENABLE newStore))))
       = [ENABLE]"
proof -
  let ?s1 = "newStore\<lparr>localStorage := [cacheKey ENABLE \<mapsto> Entry [''apple'', ''grape''] 0],
                  requests := [ENABLE], clockReads := 1\<rparr>"
  have first: "fetchWordList onceEnv ENABLE newStore = (Inr [''apple'', ''grape''], ?s1)"
    by (simp add: fetch_eval onceEnv_def quietEnv_def newStore_def ENABLE_def string_eval Let_def)
  have entry: "localStorage ?s1 (cacheKey ENABLE) = Some (Entry [''apple'', ''grape''] 0)"
    by simp
  have fresh: "clock onceEnv (clockReads ?s1) - 0 < freshness"
    by (simp add: onceEnv_def quietEnv_def freshness_def)
  from fetchWordList_cache_roundtrip [of onceEnv ENABLE newStore "[''apple'', ''grape'']" ?s1 ?s1 0]
    entry fresh
  have "fst (fetchWordList onceEnv ENABLE ?s1) = Inr [''apple'', ''grape'']
      \<and> requests (snd (fetchWordList onceEnv ENABLE ?s1)) = requests ?s1"
    by blast
  with first show ?thesis by (simp add: newStore_def)
qed

subsection \<open>The error log\<close>

lemma fetchWordListBySource_success:
  assumes "wordCache s source = None"
    and "fetchWordList e (sourceUrl source) s = (Inr ws, s1)"
  shows "fetchWordListBySource e source s
     = (Inr ws, s1\<lparr>wordCache := (wordCache s1)(source \<mapsto> ws),
                    errorLog := (errorLog s1)(source := None)\<rparr>)"
  using assms by (simp add: fetchWordListBySource_def)

lemma fetchWordListBySource_failure_log:
  assumes "wordCache s source = None"
    and "fetchWordList e (sourceUrl source) s = (Inl err, s1)"
  shows "errorLog (snd (fetchWordListBySource e source s)) source = Some (message err)"
  using assms
  by (simp add: fetchWordListBySource_def Let_def split: option.splits)

lemma fetchWordListBySource_B_failure:
  assumes "wordCache s source = None"
    and "fetchWordList_B e (sourceUrl_B source) s = (Inl err, s1)"
  shows "fetchWordListBySource_B e source s
     = (Inl err, s1\<lparr>errorLog := (errorLog s1)(source \<mapsto> message err)\<rparr>)"
  using assms by (simp add: fetchWordListBySource_B_def)

lemma download_B_frame:
  assumes "download_B e url s = (r, s')"
  shows "wordCache s' = wordCache s \<and> errorLog s' = errorLog s"
  using assms
  by (auto simp: download_B_def readClock_def Let_def split: response.splits if_splits sum.splits)

lemma fetchWordList_B_frame:
  assumes "fetchWordList_B e url s = (r, s')"
  shows "wordCache s' = wordCache s \<and> errorLog s' = errorLog s"
proof (cases "localStorage s (cacheKey url)")
  case None
  with assms show ?thesis by (simp add: fetchWordList_B_def download_B_frame)
next
  case (Some item)
  show ?thesis
  proof (cases item)
    case Malformed
    with Some assms show ?thesis by (simp add: fetchWordList_B_def download_B_frame)
  next
    case (Entry data timestamp)
    show ?thesis
    proof (cases "clock e (clockReads s) - timestamp < freshness_B")
      case True
      with Some Entry assms show ?thesis
        by (auto simp: fetchWordList_B_def readClock_def)
    next
      case False
      with Some Entry assms
      have "download_B e url (s\<lparr>clockReads := Suc (clockReads s)\<rparr>) = (r, s')"
        by (simp add: fetchWordList_B_def readClock_def)
      from download_B_frame [OF this] show ?thesis by simp
    qed
  qed
qed

lemma fetchWordListBySource_B_success_log:
  assumes "fetchWordList_B e (sourceUrl_B source) s = (Inr ws, s1)"
  shows "errorLog (snd (fetchWordListBySource_B e source s)) = errorLog s"
  using assms fetchWordList_B_frame [OF assms]
  by (simp add: fetchWordListBySource_B_def Let_def split: option.splits)

text \<open>
  The error log after a call that fetches. Take a source that is not in the in-memory
  cache, so that \<^verbatim>\<open>fetchWordListBySource\<close> calls \<^verbatim>\<open>fetchWordList\<close>. In revision D, when
  that fetch succeeds the error log has no entry for the source afterwards, and when
  it fails the error log maps the source to the message of the failure. In revision B
  a failed fetch does the same and the call raises; a fetch that succeeds leaves the
  error log as it was.
\<close>

lemma errorLog_after_fetch:
  assumes "wordCache s source = None"
  shows "(fetchWordList e (sourceUrl source) s = (Inr ws, s1) \<longrightarrow>
            fst (fetchWordListBySource e source s) = Inr ws
            \<and> errorLog (snd (fetchWordListBySource e source s)) source = None)
     \<and> (fetchWordList e (sourceUrl source) s = (Inl err, s1) \<longrightarrow>
            errorLog (snd (fetchWordListBySource e source s)) source = Some (message err))
     \<and> (fetchWordList_B e (sourceUrl_B source) s = (Inl err, s1) \<longrightarrow>
            fst (fetchWordListBySource_B e source s) = Inl err
            \<and> errorLog (snd (fetchWordListBySource_B e source s)) source = Some (message err))
     \<and> (fetchWordList_B e (sourceUrl_B source) s = (Inr ws, s1) \<longrightarrow>
            errorLog (snd (fetchWordListBySource_B e source s)) = errorLog s)"
  using assms fetchWordListBySource_success [of s source e ws s1]
    fetchWordListBySource_failure_log [of s source e err s1]
    fetchWordListBySource_B_failure [of s source e err s1]
    fetchWordListBySource_B_success_log [of e source s ws s1]
  by simp

lemma errorLog_after_fetch_example:
  "wordCache newStore ''enable'' = None
   \<and> fst (fetchWordList flakyEnv (sourceUrl ''enable'') newStore)
       = Inl (BadStatus 404 ''Not Found'')
   \<and> errorLog (snd (fetchWordListBySource flakyEnv ''enable'' newStore)) ''enable''
       = Some (message (BadStatus 404 ''Not Found''))
   \<and> fst (fetchWordListBySource flakyEnv ''enable''
            (snd (fetchWordListBySource flakyEnv ''enable'' newStore))) = Inr [''apple'']
   \<and> errorLog (snd (fetchWordListBySource flakyEnv ''enable''
            (snd (fetchWordListBySource flakyEnv ''enable'' newStore)))) ''enable'' = None"
proof -
  let ?s1 = "newStore\<lparr>requests := [ENABLE]\<rparr>"
  let ?s2 = "?s1\<lparr>errorLog := (errorLog ?s1)(''enable'' \<mapsto> message (BadStatus 404 ''Not Found''))\<rparr>"
  let ?s3 = "?s2\<lparr>requests := [ENABLE, ENABLE], clockReads := 1,
      localStorage := [cacheKey ENABLE \<mapsto> Entry [''apple''] 0]\<rparr>"
  have url: "sourceUrl ''enable'' = ENABLE" by (simp add: sourceUrl_def)
  have miss: "wordCache newStore ''enable'' = None" "wordCache ?s2 ''enable'' = None"
    and nocommon: "wordCache ?s1 ''google_common'' = None"
    by (simp_all add: newStore_def)
  have parse: "parseBody e ENABLE ''apple'' = [''apple'']" for e
    by (simp add: parseBody_def ENABLE_def string_eval)
  have fetch1: "fetchWordList flakyEnv (sourceUrl ''enable'') newStore
      = (Inl (BadStatus 404 ''Not Found''), ?s1)"
    by (simp add: url fetchWordList_def download_def flakyEnv_def quietEnv_def newStore_def)
  have call1: "fetchWordListBySource flakyEnv ''enable'' newStore
      = (Inl (BadStatus 404 ''Not Found''), ?s2)"
    using miss(1) fetch1 nocommon
    by (simp add: fetchWordListBySource_def Let_def)
  have fetch2: "fetchWordList flakyEnv (sourceUrl ''enable'') ?s2 = (Inr [''apple''], ?s3)"
    by (simp add: url fetchWordList_def download_def readClock_def parse flakyEnv_def
        quietEnv_def newStore_def lowerAlphaWord_def isLowerAlpha_def lowerLetters_def Let_def)
  note first = errorLog_after_fetch [OF miss(1), where e = flakyEnv
      and err = "BadStatus 404 ''Not Found''" and ?s1.0 = ?s1 and ws = "[]"]
  note second = errorLog_after_fetch [OF miss(2), where e = flakyEnv
      and err = "BadStatus 404 ''Not Found''" and ?s1.0 = ?s3 and ws = "[''apple'']"]
  from first fetch1
  have a: "errorLog (snd (fetchWordListBySource flakyEnv ''enable'' newStore)) ''enable''
       = Some (message (BadStatus 404 ''Not Found''))"
    by blast
  from second fetch2
  have b: "fst (fetchWordListBySource flakyEnv ''enable'' ?s2) = Inr [''apple'']
     \<and> errorLog (snd (fetchWordListBySource flakyEnv ''enable'' ?s2)) ''enable'' = None"
    by blast
  have c: "snd (fetchWordListBySource flakyEnv ''enable'' newStore) = ?s2"
    by (simp only: call1 snd_conv)
  have d: "fst (fetchWordList flakyEnv (sourceUrl ''enable'') newStore)
       = Inl (BadStatus 404 ''Not Found'')"
    by (simp only: fetch1 fst_conv)
  from miss(1) d a b show ?thesis by (simp only: c)
qed

lemmas fetch_eval_B =
  fetchWordList_B_def download_B_def parseBody_B_def cleanPieces_def cacheKey_def
  lastSegment_def readClock_def freshness_B_def fetchWordListBySource_B_def sourceUrl_B_def

text \<open>
  Claim C8. After a successful fetch for a source the error log has no entry for it,
  and after a failed fetch it maps the source to the message of the failure. Revision
  D does both (the lemma above). Revision B records the failure and never removes an
  entry: when a fetch of \<^verbatim>\<open>gsl\<close> gets status 404 and the next one succeeds, the second
  call returns the list and the error log still holds the message of the first.
\<close>

theorem errorLog_stale_after_success_B:
  "fst (fetchWordListBySource_B flakyEnv ''gsl'' newStore) = Inl (BadStatus 404 ''Not Found'')
   \<and> fst (fetchWordListBySource_B flakyEnv ''gsl''
            (snd (fetchWordListBySource_B flakyEnv ''gsl'' newStore))) = Inr [''apple'']
   \<and> errorLog (snd (fetchWordListBySource_B flakyEnv ''gsl''
            (snd (fetchWordListBySource_B flakyEnv ''gsl'' newStore)))) ''gsl''
       = Some ''Failed to fetch word list: 404 Not Found''"
proof -
  let ?s1 = "newStore\<lparr>errorLog := [''gsl'' \<mapsto> message (BadStatus 404 ''Not Found'')],
                       requests := [GSL_WORDS_B]\<rparr>"
  have first: "fetchWordListBySource_B flakyEnv ''gsl'' newStore
      = (Inl (BadStatus 404 ''Not Found''), ?s1)"
    by (simp add: fetch_eval_B flakyEnv_def quietEnv_def newStore_def GSL_WORDS_B_def
        string_eval Let_def)
  have second: "fst (fetchWordListBySource_B flakyEnv ''gsl'' ?s1) = Inr [''apple'']
     \<and> errorLog (snd (fetchWordListBySource_B flakyEnv ''gsl'' ?s1)) ''gsl''
         = Some (message (BadStatus 404 ''Not Found''))"
    by (simp add: fetch_eval_B flakyEnv_def quietEnv_def newStore_def GSL_WORDS_B_def
        string_eval Let_def)
  have msg: "message (BadStatus 404 ''Not Found'') = ''Failed to fetch word list: 404 Not Found''"
    by (simp add: showNat.simps digits_def)
  from first second msg show ?thesis by simp
qed

subsection \<open>The fallback to google_common\<close>

lemma fetchWordListBySource_fallback:
  assumes "wordCache s source = None"
    and "fetchWordList e (sourceUrl source) s = (Inl err, s1)"
    and "wordCache s ''google_common'' = Some commonWords"
  shows "fetchWordListBySource e source s
     = (Inr commonWords,
        s1\<lparr>errorLog := (errorLog s1)(source \<mapsto> message err),
           wordCache := (wordCache s1)(source \<mapsto> commonWords)\<rparr>)"
proof -
  from assms(1,3) have ne: "source \<noteq> ''google_common''" by auto
  from fetchWordList_frame [OF assms(2)] assms(3)
  have "wordCache s1 ''google_common'' = Some commonWords" by simp
  with assms(1,2) ne show ?thesis
    by (simp add: fetchWordListBySource_def)
qed

lemma fetchWordListBySource_hit:
  "wordCache s source = Some ws \<Longrightarrow> fetchWordListBySource e source s = (Inr ws, s)"
  by (simp add: fetchWordListBySource_def)

subsection \<open>One turn of the loop\<close>

lemma processSource_step:
  assumes "fetchWordListBySource e source s = (r, s1)"
  shows "processSource e len ((allWords, failed, success), s) source
     = (if contributes len r
        then ((foldl addWord allWords (ofLength len (projr r)), failed, success @ [source]), s1)
        else ((allWords, failed @ [source], success), s1))"
  using assms
  by (cases r) (simp_all add: processSource_def contributes_def Let_def)

text \<open>
  Claim C9, as amended. In revision D, when the fetch of a source's own list fails
  while the list of \<^verbatim>\<open>google_common\<close> is in the in-memory cache,
  \<^verbatim>\<open>fetchWordListBySource\<close> does not raise: it returns the list of \<^verbatim>\<open>google_common\<close> and
  caches it under the source's id. The loop of \<^verbatim>\<open>generateWordsFromMultipleSources\<close> then
  treats the source like any other that returned a list: it records it as failed
  exactly when that list has no word of the requested length, and as a success
  otherwise.
\<close>

theorem fallback_masks_failure:
  assumes "wordCache s source = None"
    and "fetchWordList e (sourceUrl source) s = (Inl err, s1)"
    and "wordCache s ''google_common'' = Some commonWords"
  shows "fst (fetchWordListBySource e source s) = Inr commonWords
     \<and> wordCache (snd (fetchWordListBySource e source s)) source = Some commonWords
     \<and> fst (processSource e len ((allWords, failed, success), s) source)
         = (if ofLength len commonWords = []
            then (allWords, failed @ [source], success)
            else (foldl addWord allWords (ofLength len commonWords), failed, success @ [source]))"
  using fetchWordListBySource_fallback [OF assms]
    processSource_step [OF fetchWordListBySource_fallback [OF assms],
      where len = len and allWords = allWords and failed = failed and success = success]
  by (simp add: contributes_def)

theorem fallback_masks_failure_witness:
  "wordCache cachedStore ''enable'' = None
   \<and> fst (fetchWordList quietEnv (sourceUrl ''enable'') cachedStore)
       = Inl (NetworkFailure ''Failed to fetch'')
   \<and> wordCache cachedStore ''google_common'' = Some [''apple'']
   \<and> fst (fetchWordListBySource quietEnv ''enable'' cachedStore) = Inr [''apple'']
   \<and> wordCache (snd (fetchWordListBySource quietEnv ''enable'' cachedStore)) ''enable''
       = Some [''apple'']
   \<and> fst (processSource quietEnv 5 (([], [], []), cachedStore) ''enable'')
       = ([''apple''], [], [''enable''])"
proof -
  let ?s1 = "cachedStore\<lparr>requests := requests cachedStore @ [sourceUrl ''enable'']\<rparr>"
  have miss: "wordCache cachedStore ''enable'' = None"
    and common: "wordCache cachedStore ''google_common'' = Some [''apple'']"
    by (simp_all add: store_eval)
  have fetch: "fetchWordList quietEnv (sourceUrl ''enable'') cachedStore
      = (Inl (NetworkFailure ''Failed to fetch''), ?s1)"
    by (simp add: fetchWordList_def download_def store_eval quietEnv_def)
  from fallback_masks_failure [OF miss fetch common, where len = 5 and allWords = "[]"
      and failed = "[]" and success = "[]"]
  have "fst (fetchWordListBySource quietEnv ''enable'' cachedStore) = Inr [''apple'']
   \<and> wordCache (snd (fetchWordListBySource quietEnv ''enable'' cachedStore)) ''enable''
       = Some [''apple'']
   \<and> fst (processSource quietEnv 5 (([], [], []), cachedStore) ''enable'')
       = ([''apple''], [], [''enable''])"
    by (simp add: ofLength_def addWord_def)
  with miss fetch common show ?thesis by simp
qed

subsection \<open>The whole call\<close>

lemma generate_returns:
  assumes "sources \<noteq> []"
    and "processSources e len sources (ensureProblemWords e s) = ((allWords, failed, success), s1)"
    and "filter (\<lambda>word. isValid (validateWord e s1 word)) allWords = valid"
    and "valid \<noteq> []"
    and "sample e count valid s1 = (ws, s2)"
  shows "generateWordsFromMultipleSources e len sources count s
     = (Inr \<lparr>words = ws, failedSources = failed\<rparr>, s2)"
  using assms by (simp add: generateWordsFromMultipleSources_def)

lemma sample_all: "atMostNumber (length pool) count \<Longrightarrow> sample e count pool s = (pool, s)"
  by (simp add: sample_def)

lemma tree_valid: "isValid (validateWord quietEnv s ''tree'') \<longleftrightarrow> \<not> (problemWordsLoaded s \<and> ''tree'' \<in> problemWords s)"
  by (simp add: validateWord_def quietEnv_def string_eval check_eval Let_def)

text \<open>
  The claim as stated has the source never added to \<^verbatim>\<open>failedSources\<close>. With \<^verbatim>\<open>apple\<close>
  as the only word of \<^verbatim>\<open>google_common\<close> and a request for words of length 4, the source
  \<^verbatim>\<open>enable\<close>, whose own fetch fails, is in the \<^verbatim>\<open>failedSources\<close> of a call that returns.
\<close>

theorem fallback_listed_counterexample:
  "wordCache cachedStore ''enable'' = None
   \<and> fst (fetchWordList quietEnv (sourceUrl ''enable'') cachedStore)
       = Inl (NetworkFailure ''Failed to fetch'')
   \<and> fst (generateWordsFromMultipleSources quietEnv 4 [''scrabble'', ''enable''] (Num 100) cachedStore)
       = Inr \<lparr>words = [''tree''], failedSources = [''enable'']\<rparr>"
proof -
  let ?s1 = "cachedStore\<lparr>requests := requests cachedStore @ [sourceUrl ''enable'']\<rparr>"
  let ?s2 = "?s1\<lparr>errorLog := (errorLog ?s1)(''enable'' \<mapsto> message (NetworkFailure ''Failed to fetch'')),
                wordCache := (wordCache ?s1)(''enable'' \<mapsto> [''apple''])\<rparr>"
  have miss: "wordCache cachedStore ''enable'' = None"
    and common: "wordCache cachedStore ''google_common'' = Some [''apple'']"
    and scrabble: "wordCache cachedStore ''scrabble'' = Some [''tree'', ''xylem'']"
    and ready: "ensureProblemWords quietEnv cachedStore = cachedStore"
    by (simp_all add: cachedStore_def scrabbleStore_def readyStore_def newStore_def
        ensureProblemWords_def)
  have fetch: "fetchWordList quietEnv (sourceUrl ''enable'') cachedStore
      = (Inl (NetworkFailure ''Failed to fetch''), ?s1)"
    by (simp add: fetchWordList_def download_def cachedStore_def scrabbleStore_def
        readyStore_def newStore_def quietEnv_def)
  note turn1 = processSource_step [OF fetchWordListBySource_hit [OF scrabble, of quietEnv],
      where len = 4 and allWords = "[]" and failed = "[]" and success = "[]"]
  note turn2 = processSource_step [OF fetchWordListBySource_fallback [OF miss fetch common],
      where len = 4 and allWords = "[''tree'']" and failed = "[]" and success = "[''scrabble'']"]
  have loop: "processSources quietEnv 4 [''scrabble'', ''enable''] cachedStore
      = (([''tree''], [''enable''], [''scrabble'']), ?s2)"
    by (simp add: processSources_def turn1 turn2 contributes_def ofLength_def addWord_def)
  have valid: "filter (\<lambda>word. isValid (validateWord quietEnv ?s2 word)) [''tree''] = [''tree'']"
    by (simp add: tree_valid cachedStore_def scrabbleStore_def readyStore_def newStore_def)
  have "generateWordsFromMultipleSources quietEnv 4 [''scrabble'', ''enable''] (Num 100) cachedStore
      = (Inr \<lparr>words = [''tree''], failedSources = [''enable'']\<rparr>, ?s2)"
  proof (rule generate_returns)
    show "[''scrabble'', ''enable''] \<noteq> []" by simp
    show "processSources quietEnv 4 [''scrabble'', ''enable''] (ensureProblemWords quietEnv cachedStore)
        = (([''tree''], [''enable''], [''scrabble'']), ?s2)"
      by (simp only: ready loop)
    show "filter (\<lambda>word. isValid (validateWord quietEnv ?s2 word)) [''tree''] = [''tree'']"
      by (rule valid)
    show "[''tree''] \<noteq> []" by simp
    show "sample quietEnv (Num 100) [''tree''] ?s2 = ([''tree''], ?s2)"
      by (simp add: sample_all)
  qed
  with miss fetch show ?thesis by simp
qed

subsection \<open>Sampling\<close>









subsection \<open>The loop and the list of failed sources\<close>

lemma length_fetchRun: "length (fetchRun e sources s) = length sources"
  by (induction sources arbitrary: s) (auto split: prod.splits)

lemma foldl_processSource_failed:
  assumes "foldl (processSource e len) ((a, f, su), s) sources = ((a', f', su'), s')"
  shows "f' = f @ recordedFailed len sources (fetchRun e sources s)"
  using assms
proof (induction sources arbitrary: a f su s)
  case Nil
  then show ?case by simp
next
  case (Cons source rest)
  obtain r s1 where fetch: "fetchWordListBySource e source s = (r, s1)"
    by (cases "fetchWordListBySource e source s")
  note step = processSource_step [OF fetch, where len = len and allWords = a and failed = f
      and success = su]
  show ?case
  proof (cases "contributes len r")
    case True
    with step Cons.prems
    have "foldl (processSource e len)
        ((foldl addWord a (ofLength len (projr r)), f, su @ [source]), s1) rest
        = ((a', f', su'), s')"
      by simp
    from Cons.IH [OF this] True fetch show ?thesis by simp
  next
    case False
    with step Cons.prems
    have "foldl (processSource e len) ((a, f @ [source], su), s1) rest = ((a', f', su'), s')"
      by simp
    from Cons.IH [OF this] False fetch show ?thesis by simp
  qed
qed

lemma processSources_failed:
  assumes "processSources e len sources s = ((a', f', su'), s')"
  shows "f' = recordedFailed len sources (fetchRun e sources s)"
  using foldl_processSource_failed [of e len "[]" "[]" "[]" s sources a' f' su' s'] assms
  by (simp add: processSources_def)

lemma length_recordedFailed_le: "length (recordedFailed len sources rs) \<le> length sources"
  by (induction len sources rs rule: recordedFailed.induct) auto

lemma recordedFailed_all:
  assumes "length rs = length sources"
  shows "length (recordedFailed len sources rs) = length sources
     \<longleftrightarrow> list_all (\<lambda>r. \<not> contributes len r) rs"
  using assms
proof (induction sources arbitrary: rs)
  case Nil
  then show ?case by simp
next
  case (Cons source rest)
  then obtain r rs' where rs: "rs = r # rs'" and len: "length rs' = length rest"
    by (cases rs) auto
  from length_recordedFailed_le [of len rest rs'] Cons.IH [OF len] show ?case
    by (auto simp: rs)
qed

lemma recordedFailed_raised:
  assumes "i < length sources" "length rs = length sources" "rs ! i = Inl err"
  shows "sources ! i \<in> set (recordedFailed len sources rs)"
  using assms
proof (induction sources arbitrary: rs i)
  case Nil
  then show ?case by simp
next
  case (Cons source rest)
  then obtain r rs' where rs: "rs = r # rs'" and len: "length rs' = length rest"
    by (cases rs) auto
  show ?case
  proof (cases i)
    case 0
    with Cons.prems rs show ?thesis by (simp add: contributes_def)
  next
    case (Suc j)
    with Cons.prems rs len have "rest ! j \<in> set (recordedFailed len rest rs')"
      by (intro Cons.IH) auto
    with Suc rs show ?thesis by simp
  qed
qed

lemma fetchWordListBySource_raises:
  "fst (fetchWordListBySource e source s) = Inl err \<longleftrightarrow>
     wordCache s source = None \<and> fst (fetchWordList e (sourceUrl source) s) = Inl err
     \<and> (source = ''google_common'' \<or> wordCache s ''google_common'' = None)"
proof (cases "wordCache s source")
  case (Some ws)
  then show ?thesis by (simp add: fetchWordListBySource_def)
next
  case None
  obtain r s1 where fetch: "fetchWordList e (sourceUrl source) s = (r, s1)"
    by (cases "fetchWordList e (sourceUrl source) s")
  from fetchWordList_frame [OF fetch]
  have same: "wordCache s1 ''google_common'' = wordCache s ''google_common''" by simp
  show ?thesis
  proof (cases r)
    case (Inr ws)
    with None fetch show ?thesis by (simp add: fetchWordListBySource_def)
  next
    case (Inl err')
    with None fetch same show ?thesis
      by (auto simp: fetchWordListBySource_def Let_def split: option.splits)
  qed
qed

lemma generate_cases:
  assumes "sources \<noteq> []"
    and "processSources e len sources (ensureProblemWords e s) = ((allWords, failed, success), s1)"
  shows "validPool e len sources s = filter (\<lambda>word. isValid (validateWord e s1 word)) allWords"
    and "validPool e len sources s = [] \<Longrightarrow>
       generateWordsFromMultipleSources e len sources count s
         = (if length failed = length sources then (Inl AllSourcesFailed, s1)
            else (Inl (NoMatches len), s1))"
    and "validPool e len sources s \<noteq> [] \<Longrightarrow>
       generateWordsFromMultipleSources e len sources count s
         = (Inr \<lparr>words = fst (sample e count (validPool e len sources s) s1),
                 failedSources = failed\<rparr>,
            snd (sample e count (validPool e len sources s) s1))"
  using assms
  by (simp_all add: validPool_def generateWordsFromMultipleSources_def split: prod.splits)

text \<open>
  Claim C2, as amended. Let the selection be non-empty (an empty one is refused before
  any fetch) and the validated pool empty. Then \<^verbatim>\<open>generateWordsFromMultipleSources\<close>
  fails with \<open>AllSourcesFailed\<close>, the error "Could not fetch words from any of the
  selected sources", exactly when every selected source was recorded as failed, that
  is, when each call of \<^verbatim>\<open>fetchWordListBySource\<close> raised or returned no word of the
  requested length; it fails with \<open>NoMatches\<close>, an error with another message, when
  some call returned a word of the requested length. A call that returns a list
  without a word of the requested length does not stop the loop: the source is added
  to \<^verbatim>\<open>failedSources\<close> and the loop goes on.
\<close>

theorem empty_pool_errors:
  assumes "sources \<noteq> []" and "validPool e len sources s = []"
  shows "fst (generateWordsFromMultipleSources e len sources count s)
       = Inl (if list_all (\<lambda>r. \<not> contributes len r)
                   (fetchRun e sources (ensureProblemWords e s))
              then AllSourcesFailed else NoMatches len)
     \<and> message AllSourcesFailed \<noteq> message (NoMatches len)
     \<and> (fetchWordListBySource e source s0 = (Inr ws, s1) \<and> ofLength len ws = [] \<longrightarrow>
          processSource e len ((allWords, failed, success), s0) source
            = ((allWords, failed @ [source], success), s1))"
proof -
  obtain a f su s' where
    loop: "processSources e len sources (ensureProblemWords e s) = ((a, f, su), s')"
    by (metis prod_cases3 surj_pair)
  from processSources_failed [OF loop]
  have f: "f = recordedFailed len sources (fetchRun e sources (ensureProblemWords e s))" .
  have "length f = length sources \<longleftrightarrow>
      list_all (\<lambda>r. \<not> contributes len r) (fetchRun e sources (ensureProblemWords e s))"
    unfolding f by (rule recordedFailed_all) (rule length_fetchRun)
  with generate_cases(2) [OF assms(1) loop assms(2), of count]
  have first: "fst (generateWordsFromMultipleSources e len sources count s)
       = Inl (if list_all (\<lambda>r. \<not> contributes len r)
                   (fetchRun e sources (ensureProblemWords e s))
              then AllSourcesFailed else NoMatches len)"
    by simp
  have second: "message AllSourcesFailed \<noteq> message (NoMatches len)" by simp
  have third: "fetchWordListBySource e source s0 = (Inr ws, s1) \<and> ofLength len ws = [] \<longrightarrow>
          processSource e len ((allWords, failed, success), s0) source
            = ((allWords, failed @ [source], success), s1)"
    by (simp add: processSource_def)
  from first second third show ?thesis by blast
qed

theorem empty_pool_errors_witness:
  "validPool quietEnv 6 [''scrabble''] cachedStore = []
   \<and> fetchRun quietEnv [''scrabble''] cachedStore = [Inr [''tree'', ''xylem'']]
   \<and> fst (generateWordsFromMultipleSources quietEnv 6 [''scrabble''] (Num 100) cachedStore)
       = Inl AllSourcesFailed
   \<and> validPool quietEnv 5 [''scrabble''] cachedStore = []
   \<and> fst (generateWordsFromMultipleSources quietEnv 5 [''scrabble''] (Num 100) cachedStore)
       = Inl (NoMatches 5)"
proof -
  have ready: "ensureProblemWords quietEnv cachedStore = cachedStore"
    and scrabble: "wordCache cachedStore ''scrabble'' = Some [''tree'', ''xylem'']"
    by (simp_all add: store_eval ensureProblemWords_def)
  note hit = fetchWordListBySource_hit [OF scrabble, of quietEnv]
  have run: "fetchRun quietEnv [''scrabble''] cachedStore = [Inr [''tree'', ''xylem'']]"
    by (simp add: hit)
  have loop6: "processSources quietEnv 6 [''scrabble''] cachedStore
      = (([], [''scrabble''], []), cachedStore)"
    by (simp add: processSources_def processSource_step [OF hit] contributes_def ofLength_def)
  have loop5: "processSources quietEnv 5 [''scrabble''] cachedStore
      = (([''xylem''], [], [''scrabble'']), cachedStore)"
    by (simp add: processSources_def processSource_step [OF hit] contributes_def ofLength_def
        addWord_def)
  have pool6: "validPool quietEnv 6 [''scrabble''] cachedStore = []"
    by (simp add: validPool_def ready loop6)
  have pool5: "validPool quietEnv 5 [''scrabble''] cachedStore = []"
    by (simp add: validPool_def ready loop5 xylem_invalid)
  have ne: "[''scrabble''] \<noteq> []" by simp
  from empty_pool_errors [OF ne pool6, of "Num 100"] run ready
  have six: "fst (generateWordsFromMultipleSources quietEnv 6 [''scrabble''] (Num 100) cachedStore)
       = Inl AllSourcesFailed"
    by (simp add: contributes_def ofLength_def)
  from empty_pool_errors [OF ne pool5, of "Num 100"] run ready
  have five: "fst (generateWordsFromMultipleSources quietEnv 5 [''scrabble''] (Num 100) cachedStore)
       = Inl (NoMatches 5)"
    by (simp add: contributes_def ofLength_def)
  from pool6 run six pool5 five show ?thesis by blast
qed

text \<open>
  The claim as stated has the error \<open>AllSourcesFailed\<close> whenever the fetch of every
  selected source failed. With the one-word list of \<^verbatim>\<open>google_common\<close> in the in-memory
  cache and every request rejected, the fetches of \<^verbatim>\<open>enable\<close> and \<^verbatim>\<open>wordnik\<close> both fail;
  each call returns the list of \<^verbatim>\<open>google_common\<close> instead, no source is recorded as
  failed, and the error is \<open>NoMatches\<close>.
\<close>

theorem every_fetch_fails_counterexample:
  "fst (fetchWordList quietEnv (sourceUrl ''enable'') xylemStore)
     = Inl (NetworkFailure ''Failed to fetch'')
   \<and> fst (fetchWordList quietEnv (sourceUrl ''wordnik'')
            (snd (fetchWordListBySource quietEnv ''enable'' xylemStore)))
     = Inl (NetworkFailure ''Failed to fetch'')
   \<and> fetchRun quietEnv [''enable'', ''wordnik''] xylemStore = [Inr [''xylem''], Inr [''xylem'']]
   \<and> validPool quietEnv 5 [''enable'', ''wordnik''] xylemStore = []
   \<and> fst (generateWordsFromMultipleSources quietEnv 5 [''enable'', ''wordnik''] (Num 100)
            xylemStore)
     = Inl (NoMatches 5)
   \<and> message (NoMatches 5) \<noteq> message AllSourcesFailed"
proof -
  let ?failure = "NetworkFailure ''Failed to fetch''"
  let ?s1 = "xylemStore\<lparr>requests := requests xylemStore @ [sourceUrl ''enable'']\<rparr>"
  let ?s2 = "?s1\<lparr>errorLog := (errorLog ?s1)(''enable'' \<mapsto> message ?failure),
                wordCache := (wordCache ?s1)(''enable'' \<mapsto> [''xylem''])\<rparr>"
  let ?s3 = "?s2\<lparr>requests := requests ?s2 @ [sourceUrl ''wordnik'']\<rparr>"
  let ?s4 = "?s3\<lparr>errorLog := (errorLog ?s3)(''wordnik'' \<mapsto> message ?failure),
                wordCache := (wordCache ?s3)(''wordnik'' \<mapsto> [''xylem''])\<rparr>"
  have miss1: "wordCache xylemStore ''enable'' = None"
    and common1: "wordCache xylemStore ''google_common'' = Some [''xylem'']"
    and miss2: "wordCache ?s2 ''wordnik'' = None"
    and common2: "wordCache ?s2 ''google_common'' = Some [''xylem'']"
    and ready: "ensureProblemWords quietEnv xylemStore = xylemStore"
    by (simp_all add: xylemStore_def readyStore_def newStore_def ensureProblemWords_def)
  have fetch1: "fetchWordList quietEnv (sourceUrl ''enable'') xylemStore = (Inl ?failure, ?s1)"
    by (simp add: fetchWordList_def download_def xylemStore_def readyStore_def newStore_def
        quietEnv_def)
  have fetch2: "fetchWordList quietEnv (sourceUrl ''wordnik'') ?s2 = (Inl ?failure, ?s3)"
    by (simp add: fetchWordList_def download_def xylemStore_def readyStore_def newStore_def
        quietEnv_def)
  note call1 = fetchWordListBySource_fallback [OF miss1 fetch1 common1]
  note call2 = fetchWordListBySource_fallback [OF miss2 fetch2 common2]
  have after1: "snd (fetchWordListBySource quietEnv ''enable'' xylemStore) = ?s2"
    by (simp only: call1 snd_conv)
  have run: "fetchRun quietEnv [''enable'', ''wordnik''] xylemStore
      = [Inr [''xylem''], Inr [''xylem'']]"
    by (simp only: fetchRun.simps call1 call2 prod.case)
  have turn1: "processSource quietEnv 5 (([], [], []), xylemStore) ''enable''
      = (([''xylem''], [], [''enable'']), ?s2)"
    using processSource_step [OF call1, where len = 5 and allWords = "[]" and failed = "[]"
        and success = "[]"]
    by (simp add: contributes_def ofLength_def addWord_def)
  have turn2: "processSource quietEnv 5 (([''xylem''], [], [''enable'']), ?s2) ''wordnik''
      = (([''xylem''], [], [''enable'', ''wordnik'']), ?s4)"
    using processSource_step [OF call2, where len = 5 and allWords = "[''xylem'']"
        and failed = "[]" and success = "[''enable'']"]
    by (simp add: contributes_def ofLength_def addWord_def)
  have loop: "processSources quietEnv 5 [''enable'', ''wordnik'']
        (ensureProblemWords quietEnv xylemStore)
      = (([''xylem''], [], [''enable'', ''wordnik'']), ?s4)"
    by (simp only: ready processSources_def foldl_Cons foldl_Nil turn1 turn2)
  have ne: "[''enable'', ''wordnik''] \<noteq> []" by simp
  have pool: "validPool quietEnv 5 [''enable'', ''wordnik''] xylemStore = []"
    by (simp only: generate_cases(1) [OF ne loop]) (simp add: xylem_invalid)
  have "generateWordsFromMultipleSources quietEnv 5 [''enable'', ''wordnik''] (Num 100) xylemStore
      = (Inl (NoMatches 5), ?s4)"
    by (simp only: generate_cases(2) [OF ne loop pool]) simp
  then have result: "fst (generateWordsFromMultipleSources quietEnv 5 [''enable'', ''wordnik'']
        (Num 100) xylemStore) = Inl (NoMatches 5)"
    by (simp only: fst_conv)
  have f1: "fst (fetchWordList quietEnv (sourceUrl ''enable'') xylemStore) = Inl ?failure"
    by (simp only: fetch1 fst_conv)
  have f2: "fst (fetchWordList quietEnv (sourceUrl ''wordnik'')
        (snd (fetchWordListBySource quietEnv ''enable'' xylemStore))) = Inl ?failure"
    by (simp only: after1 fetch2 fst_conv)
  have msg: "message (NoMatches 5) \<noteq> message AllSourcesFailed" by simp
  from f1 f2 run pool result msg show ?thesis by blast
qed

text \<open>
  Claim C4, as amended. For every call of \<^verbatim>\<open>generateWordsFromMultipleSources\<close> in which
  some word of the requested length survives validation, the call does not raise, and
  \<^verbatim>\<open>failedSources\<close> lists exactly the selected sources whose call of
  \<^verbatim>\<open>fetchWordListBySource\<close> raised or returned no word of the requested length; so the
  id of every source whose call raised is in the list. The call for a source raises
  exactly when the source is not in the in-memory cache, its fetch fails, and the
  source is \<^verbatim>\<open>google_common\<close> or \<^verbatim>\<open>google_common\<close> is not in the in-memory cache.
\<close>

theorem partial_failure_reported:
  assumes "validPool e len sources s \<noteq> []"
  shows "(\<exists>res s'. generateWordsFromMultipleSources e len sources count s = (Inr res, s')
           \<and> failedSources res
               = recordedFailed len sources (fetchRun e sources (ensureProblemWords e s))
           \<and> (\<forall>i < length sources. \<forall>err.
                 fetchRun e sources (ensureProblemWords e s) ! i = Inl err
                 \<longrightarrow> sources ! i \<in> set (failedSources res)))
     \<and> (fst (fetchWordListBySource e source s0) = Inl err \<longleftrightarrow>
           wordCache s0 source = None
           \<and> fst (fetchWordList e (sourceUrl source) s0) = Inl err
           \<and> (source = ''google_common'' \<or> wordCache s0 ''google_common'' = None))"
proof -
  obtain a f su s1 where
    loop: "processSources e len sources (ensureProblemWords e s) = ((a, f, su), s1)"
    by (metis prod_cases3 surj_pair)
  let ?run = "fetchRun e sources (ensureProblemWords e s)"
  from assms have ne: "sources \<noteq> []"
    by (auto simp: validPool_def processSources_def)
  from processSources_failed [OF loop] have f: "f = recordedFailed len sources ?run" .
  have raised: "\<forall>i < length sources. \<forall>err. ?run ! i = Inl err \<longrightarrow> sources ! i \<in> set f"
    unfolding f using recordedFailed_raised [of _ sources ?run _ len] length_fetchRun [of e sources]
    by blast
  from generate_cases(3) [OF ne loop assms, of count] f raised
  have "\<exists>res s'. generateWordsFromMultipleSources e len sources count s = (Inr res, s')
           \<and> failedSources res = recordedFailed len sources ?run
           \<and> (\<forall>i < length sources. \<forall>err. ?run ! i = Inl err
                 \<longrightarrow> sources ! i \<in> set (failedSources res))"
    by simp
  with fetchWordListBySource_raises [of e source s0 err] show ?thesis by blast
qed

theorem partial_failure_reported_witness:
  "validPool quietEnv 4 [''scrabble'', ''enable''] scrabbleStore = [''tree'']
   \<and> fst (fetchWordListBySource quietEnv ''enable'' scrabbleStore)
       = Inl (NetworkFailure ''Failed to fetch'')
   \<and> (\<exists>res s'. generateWordsFromMultipleSources quietEnv 4 [''scrabble'', ''enable''] (Num 100)
                   scrabbleStore = (Inr res, s')
         \<and> failedSources res = [''enable''])"
proof -
  let ?s1 = "scrabbleStore\<lparr>requests := requests scrabbleStore @ [sourceUrl ''enable'']\<rparr>"
  let ?s2 = "?s1\<lparr>errorLog := (errorLog ?s1)(''enable'' \<mapsto> message (NetworkFailure ''Failed to fetch''))\<rparr>"
  have ready: "ensureProblemWords quietEnv scrabbleStore = scrabbleStore"
    and scrabble: "wordCache scrabbleStore ''scrabble'' = Some [''tree'', ''xylem'']"
    and miss: "wordCache scrabbleStore ''enable'' = None"
    and nocommon: "wordCache scrabbleStore ''google_common'' = None"
    by (simp_all add: store_eval ensureProblemWords_def)
  have fetch: "fetchWordList quietEnv (sourceUrl ''enable'') scrabbleStore
      = (Inl (NetworkFailure ''Failed to fetch''), ?s1)"
    by (simp add: fetchWordList_def download_def store_eval quietEnv_def)
  have raise: "fetchWordListBySource quietEnv ''enable'' scrabbleStore
      = (Inl (NetworkFailure ''Failed to fetch''), ?s2)"
    by (simp add: fetchWordListBySource_def miss fetch nocommon)
  note hit = fetchWordListBySource_hit [OF scrabble, of quietEnv]
  have run: "fetchRun quietEnv [''scrabble'', ''enable''] scrabbleStore
      = [Inr [''tree'', ''xylem''], Inl (NetworkFailure ''Failed to fetch'')]"
    by (simp add: hit raise)
  have loop: "processSources quietEnv 4 [''scrabble'', ''enable''] scrabbleStore
      = (([''tree''], [''enable''], [''scrabble'']), ?s2)"
    by (simp add: processSources_def processSource_step [OF hit] processSource_step [OF raise]
        contributes_def ofLength_def addWord_def)
  have "validPool quietEnv 4 [''scrabble'', ''enable''] scrabbleStore
      = filter (\<lambda>word. isValid (validateWord quietEnv ?s2 word)) [''tree'']"
    by (simp add: validPool_def ready loop)
  also have "\<dots> = [''tree'']"
    by (simp add: tree_valid store_eval)
  finally have pool: "validPool quietEnv 4 [''scrabble'', ''enable''] scrabbleStore = [''tree'']" .
  have pne: "validPool quietEnv 4 [''scrabble'', ''enable''] scrabbleStore \<noteq> []"
    by (simp add: pool)
  note inst = partial_failure_reported [OF pne, where count = "Num 100" and source = "''enable''"
      and ?s0.0 = scrabbleStore and err = "NetworkFailure ''Failed to fetch''",
      unfolded ready run]
  have failed: "recordedFailed 4 [''scrabble'', ''enable'']
      [Inr [''tree'', ''xylem''], Inl (NetworkFailure ''Failed to fetch'')] = [''enable'']"
    by (simp add: contributes_def ofLength_def)
  from inst have "\<exists>res s'. generateWordsFromMultipleSources quietEnv 4 [''scrabble'', ''enable''] (Num 100)
                   scrabbleStore = (Inr res, s')
         \<and> failedSources res = recordedFailed 4 [''scrabble'', ''enable'']
              [Inr [''tree'', ''xylem''], Inl (NetworkFailure ''Failed to fetch'')]"
    by blast
  then have "\<exists>res s'. generateWordsFromMultipleSources quietEnv 4 [''scrabble'', ''enable''] (Num 100)
                   scrabbleStore = (Inr res, s')
         \<and> failedSources res = [''enable'']"
    by (simp only: failed)
  with pool raise show ?thesis by simp
qed

text \<open>
  The claim as stated has the id of every source whose fetch fails in
  \<^verbatim>\<open>failedSources\<close>. With \<^verbatim>\<open>google_common\<close> fetched first and status 404 for the list of
  \<^verbatim>\<open>enable\<close>, the call returns, the error log holds the 404 of \<^verbatim>\<open>enable\<close>, and
  \<^verbatim>\<open>failedSources\<close> is empty.
\<close>

theorem fetch_failure_not_reported_counterexample:
  "fst (generateWordsFromMultipleSources commonOnlyEnv 5 [''google_common'', ''enable''] (Num 100)
          readyStore)
     = Inr \<lparr>words = [''apple''], failedSources = []\<rparr>
   \<and> errorLog (snd (generateWordsFromMultipleSources commonOnlyEnv 5
          [''google_common'', ''enable''] (Num 100) readyStore)) ''enable''
     = Some ''Failed to fetch word list: 404 Not Found''"
proof -
  let ?s1 = "readyStore\<lparr>requests := [GOOGLE_COMMON], clockReads := 1,
      localStorage := [cacheKey GOOGLE_COMMON \<mapsto> Entry [''apple''] 0]\<rparr>"
  let ?s2 = "?s1\<lparr>wordCache := (wordCache ?s1)(''google_common'' \<mapsto> [''apple'']),
      errorLog := (errorLog ?s1)(''google_common'' := None)\<rparr>"
  let ?s3 = "?s2\<lparr>requests := [GOOGLE_COMMON, ENABLE]\<rparr>"
  let ?s4 = "?s3\<lparr>errorLog := (errorLog ?s3)(''enable'' \<mapsto> message (BadStatus 404 ''Not Found'')),
      wordCache := (wordCache ?s3)(''enable'' \<mapsto> [''apple''])\<rparr>"
  have ready: "ensureProblemWords commonOnlyEnv readyStore = readyStore"
    by (simp add: store_eval ensureProblemWords_def)
  have urls: "sourceUrl ''google_common'' = GOOGLE_COMMON" "sourceUrl ''enable'' = ENABLE"
    by (simp_all add: sourceUrl_def)
  have keys: "cacheKey ENABLE \<noteq> cacheKey GOOGLE_COMMON"
    by (simp add: cacheKey_def lastSegment_def ENABLE_def GOOGLE_COMMON_def)
  have differ: "ENABLE \<noteq> GOOGLE_COMMON"
    by (simp add: ENABLE_def GOOGLE_COMMON_def)
  have parse: "parseBody e GOOGLE_COMMON ''apple'' = [''apple'']" for e
    by (simp add: parseBody_def GOOGLE_COMMON_def string_eval)
  have miss1: "wordCache readyStore ''google_common'' = None"
    and miss2: "wordCache ?s2 ''enable'' = None"
    and common: "wordCache ?s2 ''google_common'' = Some [''apple'']"
    by (simp_all add: store_eval)
  have fetch1: "fetchWordList commonOnlyEnv (sourceUrl ''google_common'') readyStore
      = (Inr [''apple''], ?s1)"
    by (simp add: urls fetchWordList_def download_def readClock_def parse commonOnlyEnv_def
        quietEnv_def store_eval lowerAlphaWord_def isLowerAlpha_def lowerLetters_def Let_def)
  note call1 = fetchWordListBySource_success [OF miss1 fetch1]
  have fetch2: "fetchWordList commonOnlyEnv (sourceUrl ''enable'') ?s2
      = (Inl (BadStatus 404 ''Not Found''), ?s3)"
    using keys differ
    by (simp add: urls fetchWordList_def download_def commonOnlyEnv_def quietEnv_def store_eval)
  note call2 = fetchWordListBySource_fallback [OF miss2 fetch2 common]
  have turn1: "processSource commonOnlyEnv 5 (([], [], []), readyStore) ''google_common''
      = (([''apple''], [], [''google_common'']), ?s2)"
    using processSource_step [OF call1, where len = 5 and allWords = "[]" and failed = "[]"
        and success = "[]"]
    by (simp add: contributes_def ofLength_def addWord_def)
  have turn2: "processSource commonOnlyEnv 5 (([''apple''], [], [''google_common'']), ?s2) ''enable''
      = (([''apple''], [], [''google_common'', ''enable'']), ?s4)"
    using processSource_step [OF call2, where len = 5 and allWords = "[''apple'']"
        and failed = "[]" and success = "[''google_common'']"]
    by (simp add: contributes_def ofLength_def addWord_def)
  have loop: "processSources commonOnlyEnv 5 [''google_common'', ''enable''] readyStore
      = (([''apple''], [], [''google_common'', ''enable'']), ?s4)"
    by (simp only: processSources_def foldl_Cons foldl_Nil turn1 turn2)
  have valid: "filter (\<lambda>word. isValid (validateWord commonOnlyEnv ?s4 word)) [''apple'']
      = [''apple'']"
    by (simp add: apple_valid commonOnlyEnv_def quietEnv_def store_eval)
  have result: "generateWordsFromMultipleSources commonOnlyEnv 5 [''google_common'', ''enable''] (Num 100)
      readyStore = (Inr \<lparr>words = [''apple''], failedSources = []\<rparr>, ?s4)"
  proof (rule generate_returns)
    show "[''google_common'', ''enable''] \<noteq> []" by simp
    show "processSources commonOnlyEnv 5 [''google_common'', ''enable'']
        (ensureProblemWords commonOnlyEnv readyStore)
        = (([''apple''], [], [''google_common'', ''enable'']), ?s4)"
      by (simp only: ready loop)
    show "filter (\<lambda>word. isValid (validateWord commonOnlyEnv ?s4 word)) [''apple''] = [''apple'']"
      by (rule valid)
    show "[''apple''] \<noteq> []" by simp
    show "sample commonOnlyEnv (Num 100) [''apple''] ?s4 = ([''apple''], ?s4)"
      by (simp add: sample_all)
  qed
  have msg: "message (BadStatus 404 ''Not Found'') = ''Failed to fetch word list: 404 Not Found''"
    by (simp add: showNat.simps digits_def)
  have log: "errorLog ?s4 ''enable'' = Some (message (BadStatus 404 ''Not Found''))"
    by simp
  from result msg log show ?thesis by (simp only: fst_conv snd_conv)
qed

end
